theory Spec2Isabelle
  imports Main "HOL-Library.AList"
begin

section \<open>tf2onnx.tf_utils: the values the conversion handles\<close>

text \<open>
  The module is dynamically typed Python. Its values are embedded as one datatype, with the
  cases the module tells apart: \<open>None\<close>, booleans, integers (the protobuf enum numbers of
  type codes are plain integers), strings, lists, a tensorflow \<open>DType\<close> object (identified
  by its enum number), the \<open>TensorShapeProto\<close> of a shape attribute, a tensorflow
  \<open>TensorProto\<close>, and the onnx \<open>TensorProto\<close> that the tensor codec produces.
  Floating point attribute values are outside the model.

  A tensorflow \<open>TensorProto\<close> is represented by the numpy array that
  \<open>tensor_util.MakeNdarray\<close> decodes it to. An array is either numeric or of dtype
  \<open>object\<close>. A numeric array has a numpy dtype, named here by the tensorflow type code
  whose \<open>as_numpy_dtype\<close> it is (the quantized codes have structured dtypes of their own), a
  shape and its flat buffer, one entry for each element. An element of an object array is
  described by what numpy's conversion to text makes of it: \<open>Text s\<close> converts to the text
  \<open>s\<close>, \<open>Opaque\<close> makes the conversion raise.

  The onnx \<open>TensorProto\<close> has a name, its dimensions, its element type code and the
  buffer of a numeric tensor or the strings of a string tensor.
\<close>

datatype pyobj = Text string | Opaque

datatype ndarray =
  NumArray int "nat list" "int list"
| ObjArray "nat list" "pyobj list"

record shape_proto =
  unknown_rank :: bool
  dim :: "int list"

record onnx_tensor =
  ot_name :: string
  ot_dims :: "nat list"
  ot_data_type :: int
  ot_raw_data :: "int list"
  ot_string_data :: "string list"

datatype pyval =
  PNone
| PBool bool
| PInt int
| PStr string
| PList "pyval list"
| PDType int
| PShape shape_proto
| PTensorProto ndarray
| POnnxTensor onnx_tensor

datatype error =
  KeyError
| TypeError
| ValueError string
| IndexError
| NotImplementedError
| RuntimeError string

text \<open>Python's truth value of an object, as \<open>if dtype:\<close> and \<open>if fold_constant:\<close> test it.
  A \<open>DType\<close> and a protobuf message define neither \<open>__bool__\<close> nor \<open>__len__\<close>.\<close>

fun truthy :: "pyval \<Rightarrow> bool" where
  "truthy PNone = False"
| "truthy (PBool b) = b"
| "truthy (PInt i) = (i \<noteq> 0)"
| "truthy (PStr s) = (s \<noteq> [])"
| "truthy (PList l) = (l \<noteq> [])"
| "truthy (PDType c) = True"
| "truthy (PShape s) = True"
| "truthy (PTensorProto t) = True"
| "truthy (POnnxTensor t) = True"

section \<open>Type mapper\<close>

text \<open>The enum numbers of \<open>types_pb2\<close> (tensorflow) and of \<open>onnx_pb.TensorProto\<close>.\<close>

abbreviation (input) DT_FLOAT :: int where "DT_FLOAT \<equiv> 1"
abbreviation (input) DT_DOUBLE :: int where "DT_DOUBLE \<equiv> 2"
abbreviation (input) DT_INT32 :: int where "DT_INT32 \<equiv> 3"
abbreviation (input) DT_UINT8 :: int where "DT_UINT8 \<equiv> 4"
abbreviation (input) DT_INT16 :: int where "DT_INT16 \<equiv> 5"
abbreviation (input) DT_INT8 :: int where "DT_INT8 \<equiv> 6"
abbreviation (input) DT_STRING :: int where "DT_STRING \<equiv> 7"
abbreviation (input) DT_COMPLEX64 :: int where "DT_COMPLEX64 \<equiv> 8"
abbreviation (input) DT_INT64 :: int where "DT_INT64 \<equiv> 9"
abbreviation (input) DT_BOOL :: int where "DT_BOOL \<equiv> 10"
abbreviation (input) DT_QUINT8 :: int where "DT_QUINT8 \<equiv> 12"
abbreviation (input) DT_BFLOAT16 :: int where "DT_BFLOAT16 \<equiv> 14"
abbreviation (input) DT_UINT16 :: int where "DT_UINT16 \<equiv> 17"
abbreviation (input) DT_COMPLEX128 :: int where "DT_COMPLEX128 \<equiv> 18"
abbreviation (input) DT_HALF :: int where "DT_HALF \<equiv> 19"
abbreviation (input) DT_RESOURCE :: int where "DT_RESOURCE \<equiv> 20"
abbreviation (input) DT_UINT32 :: int where "DT_UINT32 \<equiv> 22"
abbreviation (input) DT_UINT64 :: int where "DT_UINT64 \<equiv> 23"

abbreviation (input) ONNX_FLOAT :: int where "ONNX_FLOAT \<equiv> 1"
abbreviation (input) ONNX_UINT8 :: int where "ONNX_UINT8 \<equiv> 2"
abbreviation (input) ONNX_INT8 :: int where "ONNX_INT8 \<equiv> 3"
abbreviation (input) ONNX_UINT16 :: int where "ONNX_UINT16 \<equiv> 4"
abbreviation (input) ONNX_INT16 :: int where "ONNX_INT16 \<equiv> 5"
abbreviation (input) ONNX_INT32 :: int where "ONNX_INT32 \<equiv> 6"
abbreviation (input) ONNX_INT64 :: int where "ONNX_INT64 \<equiv> 7"
abbreviation (input) ONNX_STRING :: int where "ONNX_STRING \<equiv> 8"
abbreviation (input) ONNX_BOOL :: int where "ONNX_BOOL \<equiv> 9"
abbreviation (input) ONNX_FLOAT16 :: int where "ONNX_FLOAT16 \<equiv> 10"
abbreviation (input) ONNX_DOUBLE :: int where "ONNX_DOUBLE \<equiv> 11"
abbreviation (input) ONNX_UINT32 :: int where "ONNX_UINT32 \<equiv> 12"
abbreviation (input) ONNX_UINT64 :: int where "ONNX_UINT64 \<equiv> 13"
abbreviation (input) ONNX_COMPLEX64 :: int where "ONNX_COMPLEX64 \<equiv> 14"
abbreviation (input) ONNX_COMPLEX128 :: int where "ONNX_COMPLEX128 \<equiv> 15"

definition TF_TO_ONNX_DTYPE :: "int \<rightharpoonup> int" where
  "TF_TO_ONNX_DTYPE = map_of
    [(DT_FLOAT, ONNX_FLOAT),
     (DT_HALF, ONNX_FLOAT16),
     (DT_DOUBLE, ONNX_DOUBLE),
     (DT_INT32, ONNX_INT32),
     (DT_INT16, ONNX_INT16),
     (DT_INT8, ONNX_INT8),
     (DT_UINT8, ONNX_UINT8),
     (DT_UINT16, ONNX_UINT16),
     (DT_INT64, ONNX_INT64),
     (DT_STRING, ONNX_STRING),
     (DT_COMPLEX64, ONNX_COMPLEX64),
     (DT_COMPLEX128, ONNX_COMPLEX128),
     (DT_BOOL, ONNX_BOOL),
     (DT_RESOURCE, ONNX_INT64),
     (DT_QUINT8, ONNX_UINT8)]"

text \<open>The subscript \<open>TF_TO_ONNX_DTYPE[dtype]\<close>. The keys are integers; a \<open>DType\<close> hashes
  to and equals its enum number, \<open>True\<close> equals \<open>1\<close>. A missing key raises \<open>KeyError\<close>, a
  list or a protobuf message is unhashable (\<open>TypeError\<close>).\<close>

definition table_get :: "int \<Rightarrow> error + pyval" where
  "table_get c = (case TF_TO_ONNX_DTYPE c of None \<Rightarrow> Inl KeyError | Some t \<Rightarrow> Inr (PInt t))"

fun table_subscript :: "pyval \<Rightarrow> error + pyval" where
  "table_subscript PNone = Inl KeyError"
| "table_subscript (PBool b) = table_get (if b then 1 else 0)"
| "table_subscript (PInt c) = table_get c"
| "table_subscript (PStr s) = Inl KeyError"
| "table_subscript (PList l) = Inl TypeError"
| "table_subscript (PDType c) = table_get c"
| "table_subscript (PShape s) = Inl TypeError"
| "table_subscript (PTensorProto t) = Inl TypeError"
| "table_subscript (POnnxTensor t) = Inl TypeError"

definition map_tf_dtype :: "pyval \<Rightarrow> error + pyval" where
  "map_tf_dtype dtype = (if truthy dtype then table_subscript dtype else Inr dtype)"

section \<open>Pre-optimizer\<close>

text \<open>\<open>tf_optimize\<close> builds the list of transform names and hands it to the transform
  pipeline. \<open>node_name\<close>, \<open>graph_util.extract_sub_graph\<close> and \<open>TransformGraph\<close> are
  collaborators outside this module: they are parameters, and each of the two calls may
  raise.\<close>

definition tf_optimize_transforms :: "pyval \<Rightarrow> string list" where
  "tf_optimize_transforms fold_constant =
     (if truthy fold_constant
      then [''fold_constants(ignore_errors=true)'', ''remove_attribute(attribute_name=_class)'']
      else [])
     @ [''fold_batch_norms'', ''fold_old_batch_norms'']"

definition tf_optimize ::
  "(string \<Rightarrow> string) \<Rightarrow> ('g \<Rightarrow> string list \<Rightarrow> error + 'g) \<Rightarrow>
   ('g \<Rightarrow> string list \<Rightarrow> string list \<Rightarrow> string list \<Rightarrow> error + 'g) \<Rightarrow>
   string list \<Rightarrow> string list \<Rightarrow> 'g \<Rightarrow> pyval \<Rightarrow> error + 'g" where
  "tf_optimize node_name extract_sub_graph TransformGraph inputs outputs graph_def fold_constant =
     (let transforms = tf_optimize_transforms fold_constant;
          needed_names = map node_name inputs @ map node_name outputs
      in case extract_sub_graph graph_def needed_names of
           Inl e \<Rightarrow> Inl e
         | Inr graph_def' \<Rightarrow> TransformGraph graph_def' inputs outputs transforms)"

section \<open>Tensor codec\<close>

text \<open>Modelled from the spec: \<open>make_sure\<close> (tf2onnx.utils) is missing from the sources.
  Its uses are precondition checks that carry an error message; it is modelled as raising
  \<open>ValueError\<close> with that message when the condition is false.\<close>

definition make_sure :: "bool \<Rightarrow> string \<Rightarrow> error + unit" where
  "make_sure bool_val error_msg =
     (if bool_val then Inr () else Inl (ValueError (''make_sure failure: '' @ error_msg)))"

text \<open>Modelled from the spec: \<open>port_name\<close> (tf2onnx.utils) is missing from the sources.
  A port name is the identifier of one output of a node: the node's name combined with an
  output index, here the implicit index \<open>0\<close>.\<close>

definition port_name :: "string \<Rightarrow> string" where
  "port_name name = name @ '':0''"

text \<open>\<open>np_data.astype(np.str)\<close> on an object array converts every element to text and
  raises when one of them cannot be converted.\<close>

fun astype_str :: "pyobj list \<Rightarrow> string list option" where
  "astype_str [] = Some []"
| "astype_str (Text s # xs) = map_option ((#) s) (astype_str xs)"
| "astype_str (Opaque # xs) = None"

text \<open>The table \<open>mapping.TENSOR_TYPE_TO_NP_TYPE\<close> of onnx for the numeric element types, and
  its inverse \<open>NP_TYPE_TO_TENSOR_TYPE\<close>. The quantized dtypes and \<open>bfloat16\<close> of
  tensorflow are no numpy dtypes of the table.\<close>

definition tensor_np_types :: "(int \<times> int) list" where
  "tensor_np_types =
     [(ONNX_FLOAT, DT_FLOAT),
      (ONNX_UINT8, DT_UINT8),
      (ONNX_INT8, DT_INT8),
      (ONNX_UINT16, DT_UINT16),
      (ONNX_INT16, DT_INT16),
      (ONNX_INT32, DT_INT32),
      (ONNX_INT64, DT_INT64),
      (ONNX_BOOL, DT_BOOL),
      (ONNX_FLOAT16, DT_HALF),
      (ONNX_DOUBLE, DT_DOUBLE),
      (ONNX_COMPLEX64, DT_COMPLEX64),
      (ONNX_COMPLEX128, DT_COMPLEX128),
      (ONNX_UINT32, DT_UINT32),
      (ONNX_UINT64, DT_UINT64)]"

definition TENSOR_TYPE_TO_NP_TYPE :: "int \<rightharpoonup> int" where
  "TENSOR_TYPE_TO_NP_TYPE = map_of tensor_np_types"

definition NP_TYPE_TO_TENSOR_TYPE :: "int \<rightharpoonup> int" where
  "NP_TYPE_TO_TENSOR_TYPE = map_of (map (\<lambda>kv. (snd kv, fst kv)) tensor_np_types)"

text \<open>\<open>numpy_helper.from_array\<close> (onnx): the tensor payload made from an array, under the
  given name. The buffer of a numeric array is copied as it is; an array whose dtype is not
  in the table raises \<open>RuntimeError\<close>. The strings of an object array are stored one by
  one; the module passes an object array on only after the conversion to text.\<close>

definition from_array :: "ndarray \<Rightarrow> string \<Rightarrow> error + onnx_tensor" where
  "from_array arr name =
     (case arr of
        ObjArray shp flat \<Rightarrow>
          (case astype_str flat of
             None \<Rightarrow> Inl NotImplementedError
           | Some strs \<Rightarrow>
               Inr \<lparr>ot_name = name, ot_dims = shp, ot_data_type = ONNX_STRING,
                    ot_raw_data = [], ot_string_data = strs\<rparr>)
      | NumArray c shp flat \<Rightarrow>
          (case NP_TYPE_TO_TENSOR_TYPE c of
             None \<Rightarrow> Inl (RuntimeError ''Numpy data type not understood yet'')
           | Some t \<Rightarrow>
               Inr \<lparr>ot_name = name, ot_dims = shp, ot_data_type = t,
                    ot_raw_data = flat, ot_string_data = []\<rparr>))"

text \<open>\<open>numpy_helper.to_array\<close> (onnx), the decoder of the payload: the array of the
  payload's element type and dimensions over its buffer or its strings.\<close>

definition to_array :: "onnx_tensor \<Rightarrow> error + ndarray" where
  "to_array tensor =
     (if ot_data_type tensor = ONNX_STRING
      then Inr (ObjArray (ot_dims tensor) (map Text (ot_string_data tensor)))
      else (case TENSOR_TYPE_TO_NP_TYPE (ot_data_type tensor) of
              None \<Rightarrow> Inl KeyError
            | Some c \<Rightarrow> Inr (NumArray c (ot_dims tensor) (ot_raw_data tensor))))"

definition isinstance_TensorProto :: "pyval \<Rightarrow> bool" where
  "isinstance_TensorProto v = (case v of PTensorProto t \<Rightarrow> True | _ \<Rightarrow> False)"

text \<open>\<open>tensor_util.MakeNdarray\<close> (tensorflow) decodes a \<open>TensorProto\<close>; what it returns is
  always an \<open>ndarray\<close>.\<close>

definition MakeNdarray :: "pyval \<Rightarrow> error + ndarray" where
  "MakeNdarray tensor = (case tensor of PTensorProto np_data \<Rightarrow> Inr np_data | _ \<Rightarrow> Inl TypeError)"

definition isinstance_ndarray :: "ndarray \<Rightarrow> bool" where
  "isinstance_ndarray np_data = True"

definition get_tf_tensor_data :: "pyval \<Rightarrow> error + ndarray" where
  "get_tf_tensor_data tensor =
     (case make_sure (isinstance_TensorProto tensor) ''Require TensorProto'' of
        Inl e \<Rightarrow> Inl e
      | Inr u \<Rightarrow>
          (case MakeNdarray tensor of
             Inl e \<Rightarrow> Inl e
           | Inr np_data \<Rightarrow>
               (case make_sure (isinstance_ndarray np_data) ''is not ndarray'' of
                  Inl e \<Rightarrow> Inl e
                | Inr u \<Rightarrow> Inr np_data)))"

text \<open>\<open>tf_to_onnx_tensor(tensor, name="")\<close>. The handler of the bare \<open>except\<close> reads
  \<open>np_data.flat[0]\<close> for its message, which itself raises on an empty array.\<close>

definition tf_to_onnx_tensor :: "pyval \<Rightarrow> string \<Rightarrow> error + onnx_tensor" where
  "tf_to_onnx_tensor tensor name =
     (case get_tf_tensor_data tensor of
        Inl e \<Rightarrow> Inl e
      | Inr np_data \<Rightarrow>
          (case np_data of
             ObjArray shp flat \<Rightarrow>
               (case astype_str flat of
                  Some strs \<Rightarrow> from_array (ObjArray shp (map Text strs)) name
                | None \<Rightarrow>
                    (case flat of
                       [] \<Rightarrow> Inl IndexError
                     | x # xs \<Rightarrow> Inl (RuntimeError ''Not support type'')))
           | NumArray c shp flat \<Rightarrow> from_array np_data name))"

text \<open>The call \<open>tf_to_onnx_tensor(tensor)\<close> with no name supplied: the default of the
  signature applies.\<close>

definition tf_to_onnx_tensor_unnamed :: "pyval \<Rightarrow> error + onnx_tensor" where
  "tf_to_onnx_tensor_unnamed tensor = tf_to_onnx_tensor tensor ''''"

section \<open>Shape resolver\<close>

text \<open>A static shape is a list of dimensions, each an integer or \<open>None\<close>; the shape itself
  may be \<open>None\<close>. The \<open>TensorShape\<close> of a graph tensor has a rank or not, and
  \<open>as_list()\<close> raises on one of unknown rank.\<close>

type_synonym shape = "int option list option"

datatype tensor_shape = UnknownShape | KnownShape "int option list"

record tf_tensor =
  t_name :: string
  t_dtype :: pyval
  t_shape :: tensor_shape

record tf_node =
  n_name :: string
  n_type :: string
  n_inputs :: "tf_tensor list"
  n_outputs :: "tf_tensor list"
  n_attr :: "(string \<times> pyval) list"

fun as_list :: "tensor_shape \<Rightarrow> error + int option list" where
  "as_list UnknownShape = Inl (ValueError ''as_list() is not defined on an unknown TensorShape.'')"
| "as_list (KnownShape ds) = Inr ds"

definition get_tf_tensor_shape :: "tf_tensor \<Rightarrow> shape" where
  "get_tf_tensor_shape tensor =
     (case as_list (t_shape tensor) of Inl e \<Rightarrow> None | Inr s \<Rightarrow> Some s)"

text \<open>\<open>node.get_attr(name)\<close> raises \<open>ValueError\<close> when the node has no such attribute.
  \<open>n_attr\<close> lists the entries of \<open>node.node_def.attr\<close> in iteration order.\<close>

definition get_tf_node_attr :: "tf_node \<Rightarrow> string \<Rightarrow> error + pyval" where
  "get_tf_node_attr node name =
     (case map_of (n_attr node) name of
        None \<Rightarrow> Inl (ValueError ''No attr named'')
      | Some v \<Rightarrow> Inr v)"

text \<open>\<open>get_tf_shape_attr\<close>: every exception inside the \<open>try\<close> is swallowed, also the
  \<open>AttributeError\<close> of reading \<open>unknown_rank\<close> from a value that is not a shape.\<close>

definition get_tf_shape_attr :: "tf_node \<Rightarrow> int list option" where
  "get_tf_shape_attr node =
     (case get_tf_node_attr node ''shape'' of
        Inl e \<Rightarrow> None
      | Inr v \<Rightarrow>
          (case v of
             PShape shape \<Rightarrow> (if \<not> unknown_rank shape then Some (dim shape) else None)
           | _ \<Rightarrow> None))"

section \<open>Graph converter\<close>

text \<open>\<open>helper.make_node\<close> (onnx) builds the converted node and turns every entry of the
  attribute dictionary into an onnx attribute. It raises \<open>ValueError\<close> on a value that is
  no attribute data: an integer, a string and an onnx tensor are, so is a list of integers,
  of non-empty strings or of onnx tensors; \<open>None\<close>, a \<open>DType\<close> and a tensorflow message
  are not. The node keeps the dictionary as its attribute mapping.\<close>

record onnx_node =
  o_op_type :: string
  o_input :: "string list"
  o_output :: "string list"
  o_name :: string
  o_attribute :: "(string \<times> pyval) list"

fun is_integral :: "pyval \<Rightarrow> bool" where
  "is_integral (PBool b) = True"
| "is_integral (PInt i) = True"
| "is_integral v = False"

fun is_bytes :: "pyval \<Rightarrow> bool" where
  "is_bytes (PStr s) = (s \<noteq> [])"
| "is_bytes v = False"

fun is_onnx_tensor :: "pyval \<Rightarrow> bool" where
  "is_onnx_tensor (POnnxTensor t) = True"
| "is_onnx_tensor v = False"

fun attribute_ok :: "pyval \<Rightarrow> bool" where
  "attribute_ok PNone = False"
| "attribute_ok (PBool b) = True"
| "attribute_ok (PInt i) = True"
| "attribute_ok (PStr s) = True"
| "attribute_ok (PList l) = (list_all is_integral l \<or> list_all is_bytes l \<or> list_all is_onnx_tensor l)"
| "attribute_ok (PDType c) = False"
| "attribute_ok (PShape s) = False"
| "attribute_ok (PTensorProto t) = False"
| "attribute_ok (POnnxTensor t) = True"

definition make_node ::
  "string \<Rightarrow> string list \<Rightarrow> string list \<Rightarrow> string \<Rightarrow> (string \<times> pyval) list \<Rightarrow> error + onnx_node" where
  "make_node op_type inputs outputs name attr =
     (if list_all (\<lambda>kv. attribute_ok (snd kv)) attr
      then Inr \<lparr>o_op_type = op_type, o_input = inputs, o_output = outputs, o_name = name,
                o_attribute = attr\<rparr>
      else Inl (ValueError ''Could not infer attribute type''))"

text \<open>The five values \<open>tflist_to_onnx\<close> returns, and the state of its two loops.\<close>

record tables =
  onnx_nodes :: "onnx_node list"
  op_cnt :: "string \<Rightarrow> nat"
  attr_cnt :: "string \<Rightarrow> nat"
  output_shapes :: "string \<rightharpoonup> shape"
  dtypes :: "string \<rightharpoonup> pyval"

definition ignored_attr :: "string list" where
  "ignored_attr =
     [''unknown_rank'', ''_class'', ''Tshape'', ''use_cudnn_on_gpu'', ''Index'', ''Tpaddings'',
      ''TI'', ''Tparams'', ''Tindices'', ''Tlen'', ''Tdim'', ''dynamic_size'', ''Tmultiples'',
      ''Tblock_shape'', ''Tcrops'', ''index_type'', ''Taxis'', ''U'', ''maxval'',
      ''Tout'', ''Tlabels'', ''Tindex'', ''element_shape'', ''Targmax'']"

definition isinstance_list :: "pyval \<Rightarrow> bool" where
  "isinstance_list v = (case v of PList l \<Rightarrow> True | _ \<Rightarrow> False)"

text \<open>\<open>counter[key] += 1\<close> on a \<open>collections.Counter\<close>, where a missing key counts
  as \<open>0\<close>.\<close>

definition counter_incr :: "(string \<Rightarrow> nat) \<Rightarrow> string \<Rightarrow> (string \<Rightarrow> nat)" where
  "counter_incr counter key = counter(key := counter key + 1)"

text \<open>\<open>shape_override.get(name)\<close>: the entry, or \<open>None\<close> when there is none. An entry may
  itself be \<open>None\<close>.\<close>

definition dict_get :: "(string \<rightharpoonup> shape) \<Rightarrow> string \<Rightarrow> shape" where
  "dict_get d k = (case d k of None \<Rightarrow> None | Some v \<Rightarrow> v)"

text \<open>The first loop: one output of one node.\<close>

definition scan_output :: "(string \<rightharpoonup> shape) \<Rightarrow> tf_tensor \<Rightarrow> tables \<Rightarrow> error + tables" where
  "scan_output shape_override out st =
     (let shape = dict_get shape_override (t_name out);
          shape = (if shape = None then get_tf_tensor_shape out else shape)
      in case map_tf_dtype (t_dtype out) of
           Inl e \<Rightarrow> Inl e
         | Inr d \<Rightarrow>
             Inr (st\<lparr>dtypes := (dtypes st)(t_name out \<mapsto> d),
                     output_shapes := (output_shapes st)(t_name out \<mapsto> shape)\<rparr>))"

fun scan_outputs :: "(string \<rightharpoonup> shape) \<Rightarrow> tf_tensor list \<Rightarrow> tables \<Rightarrow> error + tables" where
  "scan_outputs shape_override [] st = Inr st"
| "scan_outputs shape_override (out # outs) st =
     (case scan_output shape_override out st of
        Inl e \<Rightarrow> Inl e
      | Inr st' \<Rightarrow> scan_outputs shape_override outs st')"

fun scan_nodes :: "(string \<rightharpoonup> shape) \<Rightarrow> tf_node list \<Rightarrow> tables \<Rightarrow> error + tables" where
  "scan_nodes shape_override [] st = Inr st"
| "scan_nodes shape_override (node # ops) st =
     (case scan_outputs shape_override (n_outputs node) st of
        Inl e \<Rightarrow> Inl e
      | Inr st' \<Rightarrow> scan_nodes shape_override ops st')"

text \<open>The second loop: one attribute name \<open>a\<close> of one node, on the node's attribute
  dictionary \<open>attr\<close> and the tables.\<close>

definition convert_attr ::
  "tf_node \<Rightarrow> string \<Rightarrow> (string \<times> pyval) list \<times> tables \<Rightarrow> error + (string \<times> pyval) list \<times> tables" where
  "convert_attr node a s =
     (let attr = fst s;
          st = (snd s)\<lparr>attr_cnt := counter_incr (attr_cnt (snd s)) a\<rparr>
      in if a = ''dtype'' then
           (case get_tf_node_attr node ''dtype'' of
              Inl e \<Rightarrow> Inl e
            | Inr v \<Rightarrow>
                (case map_tf_dtype v of
                   Inl e \<Rightarrow> Inl e
                 | Inr d \<Rightarrow> Inr (AList.update a d attr, st)))
         else if a = ''T'' then
           (case get_tf_node_attr node ''T'' of
              Inl e \<Rightarrow> Inl e
            | Inr dtype \<Rightarrow>
                (if truthy dtype then
                   (if \<not> isinstance_list dtype then
                      (case map_tf_dtype dtype of
                         Inl e \<Rightarrow> Inl e
                       | Inr d \<Rightarrow> Inr (attr, st\<lparr>dtypes := (dtypes st)(n_name node \<mapsto> d)\<rparr>))
                    else Inr (attr, st))
                 else Inr (attr, st)))
         else if a \<in> set [''output_type'', ''output_dtype'', ''out_type'', ''Tidx'', ''out_idx''] then
           (case get_tf_node_attr node a of
              Inl e \<Rightarrow> Inl e
            | Inr v \<Rightarrow>
                (case map_tf_dtype v of
                   Inl e \<Rightarrow> Inl e
                 | Inr d \<Rightarrow> Inr (AList.update a d attr, st)))
         else if a = ''shape'' then
           (case get_tf_shape_attr node of
              None \<Rightarrow> Inr (attr, st)
            | Some shape \<Rightarrow> Inr (AList.update a (PList (map PInt shape)) attr, st))
         else if a = ''Tperm'' then Inr (attr, st)
         else if a = ''value'' then
           (case get_tf_node_attr node a of
              Inl e \<Rightarrow> Inl e
            | Inr v \<Rightarrow>
                (case tf_to_onnx_tensor v (port_name (n_name node)) of
                   Inl e \<Rightarrow> Inl e
                 | Inr onnx_tensor \<Rightarrow> Inr (AList.update a (POnnxTensor onnx_tensor) attr, st)))
         else if a = ''DstT'' then
           (case get_tf_node_attr node ''DstT'' of
              Inl e \<Rightarrow> Inl e
            | Inr v \<Rightarrow>
                (case map_tf_dtype v of
                   Inl e \<Rightarrow> Inl e
                 | Inr d \<Rightarrow> Inr (AList.update ''to'' d attr, st)))
         else if a = ''SrcT'' then Inr (attr, st)
         else if a \<in> set ignored_attr then Inr (attr, st)
         else
           (case get_tf_node_attr node a of
              Inl e \<Rightarrow> Inl e
            | Inr v \<Rightarrow> Inr (AList.update a v attr, st)))"

fun convert_attrs ::
  "tf_node \<Rightarrow> string list \<Rightarrow> (string \<times> pyval) list \<times> tables \<Rightarrow> error + (string \<times> pyval) list \<times> tables" where
  "convert_attrs node [] s = Inr s"
| "convert_attrs node (a # as) s =
     (case convert_attr node a s of
        Inl e \<Rightarrow> Inl e
      | Inr s' \<Rightarrow> convert_attrs node as s')"

text \<open>One node of the second loop. \<open>takeit\<close> is never reset; a failure of \<open>make_node\<close> is
  logged and raised again.\<close>

definition convert_node :: "tf_node \<Rightarrow> tables \<Rightarrow> error + tables" where
  "convert_node node st0 =
     (let takeit = True;
          st = st0\<lparr>op_cnt := counter_incr (op_cnt st0) (n_type node)\<rparr>
      in case convert_attrs node (map fst (n_attr node)) ([], st) of
           Inl e \<Rightarrow> Inl e
         | Inr s \<Rightarrow>
             (if takeit then
                (let input_names = map t_name (n_inputs node);
                     output_names = map t_name (n_outputs node)
                 in case make_node (n_type node) input_names output_names (n_name node) (fst s) of
                      Inl ex \<Rightarrow> Inl ex
                    | Inr onnx_node \<Rightarrow>
                        Inr ((snd s)\<lparr>onnx_nodes := onnx_nodes (snd s) @ [onnx_node]\<rparr>))
              else Inr (snd s)))"

fun convert_nodes :: "tf_node list \<Rightarrow> tables \<Rightarrow> error + tables" where
  "convert_nodes [] st = Inr st"
| "convert_nodes (node # ops) st =
     (case convert_node node st of
        Inl e \<Rightarrow> Inl e
      | Inr st' \<Rightarrow> convert_nodes ops st')"

definition init_tables :: tables where
  "init_tables =
     \<lparr>onnx_nodes = [], op_cnt = (\<lambda>k. 0), attr_cnt = (\<lambda>k. 0),
      output_shapes = Map.empty, dtypes = Map.empty\<rparr>"

definition tflist_to_onnx :: "tf_node list \<Rightarrow> (string \<rightharpoonup> shape) \<Rightarrow> error + tables" where
  "tflist_to_onnx node_list shape_override =
     (case scan_nodes shape_override node_list init_tables of
        Inl e \<Rightarrow> Inl e
      | Inr st \<Rightarrow> convert_nodes node_list st)"

section \<open>Auxiliary notions for the proofs\<close>

text \<open>A node whose attribute \<open>T\<close> is a single type: the second loop records its mapped type
  in the dtype table under the node's own name.\<close>

definition has_node_dtype :: "tf_node \<Rightarrow> bool" where
  "has_node_dtype node =
     (case map_of (n_attr node) ''T'' of
        None \<Rightarrow> False
      | Some dtype \<Rightarrow> truthy dtype \<and> \<not> isinstance_list dtype)"

definition count_attr :: "string \<Rightarrow> tables \<Rightarrow> tables" where
  "count_attr a st = st\<lparr>attr_cnt := counter_incr (attr_cnt st) a\<rparr>"

text \<open>A converted node that the second loop makes from a source node.\<close>

definition converted_from :: "tf_node \<Rightarrow> onnx_node \<Rightarrow> bool" where
  "converted_from node onnx_node \<longleftrightarrow>
     (\<exists>st st'. convert_attrs node (map fst (n_attr node)) ([], st) = Inr (o_attribute onnx_node, st'))
     \<and> o_op_type onnx_node = n_type node
     \<and> o_input onnx_node = map t_name (n_inputs node)
     \<and> o_output onnx_node = map t_name (n_outputs node)
     \<and> o_name onnx_node = n_name node"

text \<open>A node with its attribute \<open>shape\<close> removed, and what a conversion returns apart from
  the counter of attribute names.\<close>

definition without_shape_attr :: "tf_node \<Rightarrow> tf_node" where
  "without_shape_attr node = node\<lparr>n_attr := filter (\<lambda>kv. fst kv \<noteq> ''shape'') (n_attr node)\<rparr>"

definition all_but_attr_cnt ::
  "tables \<Rightarrow> onnx_node list \<times> (string \<Rightarrow> nat) \<times> (string \<rightharpoonup> shape) \<times> (string \<rightharpoonup> pyval)" where
  "all_but_attr_cnt t = (onnx_nodes t, op_cnt t, output_shapes t, dtypes t)"

section \<open>Example graphs\<close>

text \<open>A node with a type attribute \<open>T\<close>; a node of a custom operator with, after
  \<open>DstT\<close>, an attribute of its own named \<open>to\<close>; a graph of a placeholder whose \<open>shape\<close>
  attribute has unknown rank, a constant and a cast, with an override for the output of the
  cast; a constant of strings with an element that has no text.\<close>

definition example_relu :: tf_node where
  "example_relu =
     \<lparr>n_name = ''n'', n_type = ''Relu'',
      n_inputs = [\<lparr>t_name = ''x:0'', t_dtype = PDType DT_FLOAT, t_shape = KnownShape [Some 2]\<rparr>],
      n_outputs = [\<lparr>t_name = ''n:0'', t_dtype = PDType DT_FLOAT, t_shape = KnownShape [Some 2]\<rparr>],
      n_attr = [(''T'', PDType DT_FLOAT)]\<rparr>"

definition example_custom :: tf_node where
  "example_custom =
     \<lparr>n_name = ''n'', n_type = ''CustomCast'',
      n_inputs = [\<lparr>t_name = ''x:0'', t_dtype = PDType DT_FLOAT, t_shape = KnownShape [Some 2]\<rparr>],
      n_outputs = [\<lparr>t_name = ''n:0'', t_dtype = PDType DT_INT32, t_shape = KnownShape [Some 2]\<rparr>],
      n_attr = [(''DstT'', PDType DT_INT32), (''to'', PInt 5)]\<rparr>"

definition example_graph :: "tf_node list" where
  "example_graph =
     [\<lparr>n_name = ''x'', n_type = ''Placeholder'', n_inputs = [],
       n_outputs = [\<lparr>t_name = ''x:0'', t_dtype = PDType DT_FLOAT, t_shape = UnknownShape\<rparr>],
       n_attr = [(''dtype'', PDType DT_FLOAT), (''shape'', PShape \<lparr>unknown_rank = True, dim = []\<rparr>)]\<rparr>,
      \<lparr>n_name = ''c'', n_type = ''Const'', n_inputs = [],
       n_outputs = [\<lparr>t_name = ''c:0'', t_dtype = PDType DT_INT32, t_shape = KnownShape []\<rparr>],
       n_attr = [(''dtype'', PDType DT_INT32), (''value'', PTensorProto (NumArray DT_INT32 [] [1]))]\<rparr>,
      \<lparr>n_name = ''y'', n_type = ''Cast'',
       n_inputs = [\<lparr>t_name = ''x:0'', t_dtype = PDType DT_FLOAT, t_shape = UnknownShape\<rparr>],
       n_outputs = [\<lparr>t_name = ''y:0'', t_dtype = PDType DT_INT32, t_shape = KnownShape [Some 2, None]\<rparr>],
       n_attr = [(''SrcT'', PDType DT_FLOAT), (''DstT'', PDType DT_INT32), (''Truncate'', PBool False)]\<rparr>]"

definition example_override :: "string \<rightharpoonup> shape" where
  "example_override = [''y:0'' \<mapsto> Some [Some 2, Some 3]]"

definition example_strings :: tf_node where
  "example_strings =
     \<lparr>n_name = ''s'', n_type = ''Const'', n_inputs = [],
      n_outputs = [\<lparr>t_name = ''s:0'', t_dtype = PDType DT_STRING, t_shape = KnownShape [Some 2]\<rparr>],
      n_attr = [(''dtype'', PDType DT_STRING),
                (''value'', PTensorProto (ObjArray [2] [Text ''a'', Opaque]))]\<rparr>"

section \<open>Lemmas on the two loops\<close>

subsection \<open>The scan of the outputs\<close>

lemma scan_output_Inr:
  assumes "scan_output so out st = Inr st'"
  shows "output_shapes st' = (output_shapes st)(t_name out \<mapsto>
            (if dict_get so (t_name out) = None then get_tf_tensor_shape out else dict_get so (t_name out)))"
    and "dom (dtypes st') = insert (t_name out) (dom (dtypes st))"
    and "onnx_nodes st' = onnx_nodes st"
  using assms by (auto simp: scan_output_def Let_def split: sum.splits)

lemma scan_outputs_shapes:
  "scan_outputs so outs st = Inr st' \<Longrightarrow>
   output_shapes st' = output_shapes st ++
     map_of (rev (map (\<lambda>out. (t_name out,
        if dict_get so (t_name out) = None then get_tf_tensor_shape out else dict_get so (t_name out))) outs))"
proof (induction outs arbitrary: st)
  case Nil
  then show ?case by simp
next
  case (Cons out outs)
  from Cons.prems obtain st1 where s1: "scan_output so out st = Inr st1"
    and s2: "scan_outputs so outs st1 = Inr st'"
    by (auto split: sum.splits)
  show ?case
    unfolding Cons.IH[OF s2] scan_output_Inr(1)[OF s1]
    by (simp add: map_add_assoc[symmetric])
qed

lemma map_of_find:
  "map_of (map (\<lambda>out. (f out, g out)) xs) x = map_option g (List.find (\<lambda>out. f out = x) xs)"
  by (induction xs) auto

lemma scan_nodes_shapes:
  "scan_nodes so ops st = Inr st' \<Longrightarrow>
   output_shapes st' = output_shapes st ++
     map_of (rev (map (\<lambda>out. (t_name out,
        if dict_get so (t_name out) = None then get_tf_tensor_shape out else dict_get so (t_name out)))
          (concat (map n_outputs ops))))"
proof (induction ops arbitrary: st)
  case Nil
  then show ?case by simp
next
  case (Cons node ops)
  from Cons.prems obtain st1 where s1: "scan_outputs so (n_outputs node) st = Inr st1"
    and s2: "scan_nodes so ops st1 = Inr st'"
    by (auto split: sum.splits)
  show ?case
    unfolding Cons.IH[OF s2] scan_outputs_shapes[OF s1]
    by (simp add: map_add_assoc)
qed

lemma scan_outputs_dom:
  "scan_outputs so outs st = Inr st' \<Longrightarrow>
   dom (dtypes st') = dom (dtypes st) \<union> t_name ` set outs \<and> onnx_nodes st' = onnx_nodes st"
proof (induction outs arbitrary: st)
  case Nil
  then show ?case by simp
next
  case (Cons out outs)
  from Cons.prems obtain st1 where s1: "scan_output so out st = Inr st1"
    and s2: "scan_outputs so outs st1 = Inr st'"
    by (auto split: sum.splits)
  show ?case
    using Cons.IH[OF s2] scan_output_Inr(2,3)[OF s1] by auto
qed

lemma scan_nodes_dom:
  "scan_nodes so ops st = Inr st' \<Longrightarrow>
   dom (dtypes st') = dom (dtypes st) \<union> t_name ` set (concat (map n_outputs ops))
   \<and> onnx_nodes st' = onnx_nodes st"
proof (induction ops arbitrary: st)
  case Nil
  then show ?case by simp
next
  case (Cons node ops)
  from Cons.prems obtain st1 where s1: "scan_outputs so (n_outputs node) st = Inr st1"
    and s2: "scan_nodes so ops st1 = Inr st'"
    by (auto split: sum.splits)
  show ?case
    using Cons.IH[OF s2] scan_outputs_dom[OF s1] by auto
qed

subsection \<open>One attribute\<close>

lemma convert_attr_branches:
  obtains (dtype) "a = ''dtype''"
  | (T) "a = ''T''"
  | (out_type) "a \<noteq> ''dtype''" "a \<noteq> ''T''"
      "a \<in> set [''output_type'', ''output_dtype'', ''out_type'', ''Tidx'', ''out_idx'']"
  | (shape) "a = ''shape''"
  | (Tperm) "a = ''Tperm''"
  | (val) "a = ''value''"
  | (DstT) "a = ''DstT''"
  | (SrcT) "a = ''SrcT''"
  | (ignored) "a \<noteq> ''dtype''" "a \<noteq> ''T''"
      "a \<notin> set [''output_type'', ''output_dtype'', ''out_type'', ''Tidx'', ''out_idx'']"
      "a \<noteq> ''shape''" "a \<noteq> ''Tperm''" "a \<noteq> ''value''" "a \<noteq> ''DstT''" "a \<noteq> ''SrcT''"
      "a \<in> set ignored_attr"
  | (other) "a \<noteq> ''dtype''" "a \<noteq> ''T''"
      "a \<notin> set [''output_type'', ''output_dtype'', ''out_type'', ''Tidx'', ''out_idx'']"
      "a \<noteq> ''shape''" "a \<noteq> ''Tperm''" "a \<noteq> ''value''" "a \<noteq> ''DstT''" "a \<noteq> ''SrcT''"
      "a \<notin> set ignored_attr"
  by blast

lemma convert_attr_dtype:
  "convert_attr node ''dtype'' s =
     (case get_tf_node_attr node ''dtype'' of
        Inl e \<Rightarrow> Inl e
      | Inr v \<Rightarrow>
          (case map_tf_dtype v of
             Inl e \<Rightarrow> Inl e
           | Inr d \<Rightarrow> Inr (AList.update ''dtype'' d (fst s), count_attr ''dtype'' (snd s))))"
  unfolding convert_attr_def Let_def count_attr_def by simp

lemma convert_attr_T:
  "convert_attr node ''T'' s =
     (case get_tf_node_attr node ''T'' of
        Inl e \<Rightarrow> Inl e
      | Inr dtype \<Rightarrow>
          (if truthy dtype \<and> \<not> isinstance_list dtype then
             (case map_tf_dtype dtype of
                Inl e \<Rightarrow> Inl e
              | Inr d \<Rightarrow> Inr (fst s, (count_attr ''T'' (snd s))\<lparr>dtypes := (dtypes (snd s))(n_name node \<mapsto> d)\<rparr>))
           else Inr (fst s, count_attr ''T'' (snd s))))"
  unfolding convert_attr_def Let_def count_attr_def by (simp split: sum.splits)

lemma convert_attr_out_type:
  "a \<noteq> ''dtype'' \<Longrightarrow> a \<noteq> ''T'' \<Longrightarrow>
   a \<in> set [''output_type'', ''output_dtype'', ''out_type'', ''Tidx'', ''out_idx''] \<Longrightarrow>
   convert_attr node a s =
     (case get_tf_node_attr node a of
        Inl e \<Rightarrow> Inl e
      | Inr v \<Rightarrow>
          (case map_tf_dtype v of
             Inl e \<Rightarrow> Inl e
           | Inr d \<Rightarrow> Inr (AList.update a d (fst s), count_attr a (snd s))))"
  unfolding convert_attr_def Let_def count_attr_def by (simp only: if_False if_True)

lemma convert_attr_shape:
  "convert_attr node ''shape'' s =
     (case get_tf_shape_attr node of
        None \<Rightarrow> Inr (fst s, count_attr ''shape'' (snd s))
      | Some shape \<Rightarrow> Inr (AList.update ''shape'' (PList (map PInt shape)) (fst s), count_attr ''shape'' (snd s)))"
  unfolding convert_attr_def Let_def count_attr_def by simp

lemma convert_attr_Tperm:
  "convert_attr node ''Tperm'' s = Inr (fst s, count_attr ''Tperm'' (snd s))"
  unfolding convert_attr_def Let_def count_attr_def by simp

lemma convert_attr_value:
  "convert_attr node ''value'' s =
     (case get_tf_node_attr node ''value'' of
        Inl e \<Rightarrow> Inl e
      | Inr v \<Rightarrow>
          (case tf_to_onnx_tensor v (port_name (n_name node)) of
             Inl e \<Rightarrow> Inl e
           | Inr onnx_tensor \<Rightarrow>
               Inr (AList.update ''value'' (POnnxTensor onnx_tensor) (fst s), count_attr ''value'' (snd s))))"
  unfolding convert_attr_def Let_def count_attr_def by simp

lemma convert_attr_DstT:
  "convert_attr node ''DstT'' s =
     (case get_tf_node_attr node ''DstT'' of
        Inl e \<Rightarrow> Inl e
      | Inr v \<Rightarrow>
          (case map_tf_dtype v of
             Inl e \<Rightarrow> Inl e
           | Inr d \<Rightarrow> Inr (AList.update ''to'' d (fst s), count_attr ''DstT'' (snd s))))"
  unfolding convert_attr_def Let_def count_attr_def by simp

lemma convert_attr_SrcT:
  "convert_attr node ''SrcT'' s = Inr (fst s, count_attr ''SrcT'' (snd s))"
  unfolding convert_attr_def Let_def count_attr_def by simp

lemma convert_attr_ignored:
  "a \<noteq> ''dtype'' \<Longrightarrow> a \<noteq> ''T'' \<Longrightarrow>
   a \<notin> set [''output_type'', ''output_dtype'', ''out_type'', ''Tidx'', ''out_idx''] \<Longrightarrow>
   a \<noteq> ''shape'' \<Longrightarrow> a \<noteq> ''Tperm'' \<Longrightarrow> a \<noteq> ''value'' \<Longrightarrow> a \<noteq> ''DstT'' \<Longrightarrow> a \<noteq> ''SrcT'' \<Longrightarrow>
   a \<in> set ignored_attr \<Longrightarrow>
   convert_attr node a s = Inr (fst s, count_attr a (snd s))"
  unfolding convert_attr_def Let_def count_attr_def by (simp only: if_False if_True)

lemma convert_attr_other:
  "a \<noteq> ''dtype'' \<Longrightarrow> a \<noteq> ''T'' \<Longrightarrow>
   a \<notin> set [''output_type'', ''output_dtype'', ''out_type'', ''Tidx'', ''out_idx''] \<Longrightarrow>
   a \<noteq> ''shape'' \<Longrightarrow> a \<noteq> ''Tperm'' \<Longrightarrow> a \<noteq> ''value'' \<Longrightarrow> a \<noteq> ''DstT'' \<Longrightarrow> a \<noteq> ''SrcT'' \<Longrightarrow>
   a \<notin> set ignored_attr \<Longrightarrow>
   convert_attr node a s =
     (case get_tf_node_attr node a of
        Inl e \<Rightarrow> Inl e
      | Inr v \<Rightarrow> Inr (AList.update a v (fst s), count_attr a (snd s)))"
  unfolding convert_attr_def Let_def count_attr_def by (simp only: if_False if_True)

lemma get_attr_Inr: "get_tf_node_attr node name = Inr v \<longleftrightarrow> map_of (n_attr node) name = Some v"
  by (simp add: get_tf_node_attr_def split: option.splits)

lemma convert_attr_attr:
  assumes "convert_attr node a s = Inr s'"
  obtains (keep) "fst s' = fst s" "a \<noteq> ''value''" "a \<noteq> ''DstT''"
      "a = ''shape'' \<longrightarrow> get_tf_shape_attr node = None"
  | (put) v where "fst s' = AList.update a v (fst s)" "a \<noteq> ''DstT''" "a \<noteq> ''SrcT''"
      "a = ''shape'' \<longrightarrow> get_tf_shape_attr node \<noteq> None"
      "a = ''value'' \<longrightarrow> (\<exists>v0 t. map_of (n_attr node) ''value'' = Some v0
          \<and> tf_to_onnx_tensor v0 (port_name (n_name node)) = Inr t \<and> v = POnnxTensor t)"
  | (to) x d where "a = ''DstT''" "map_of (n_attr node) ''DstT'' = Some x"
      "map_tf_dtype x = Inr d" "fst s' = AList.update ''to'' d (fst s)"
proof (cases a rule: convert_attr_branches)
  case dtype
  from assms obtain v d where "s' = (AList.update ''dtype'' d (fst s), count_attr ''dtype'' (snd s))"
    unfolding dtype convert_attr_dtype by (auto simp: get_attr_Inr split: sum.splits)
  then show ?thesis by (intro put[of d]) (simp_all add: dtype)
next
  case T
  from assms have "fst s' = fst s"
    unfolding T convert_attr_T by (auto split: sum.splits if_splits)
  then show ?thesis by (intro keep) (simp_all add: T)
next
  case out_type
  from assms obtain v d where "s' = (AList.update a d (fst s), count_attr a (snd s))"
    unfolding convert_attr_out_type[OF out_type] by (auto simp: get_attr_Inr split: sum.splits)
  moreover from out_type(3) have "a \<noteq> ''DstT''" "a \<noteq> ''SrcT''" "a \<noteq> ''shape''" "a \<noteq> ''value''"
    by auto
  ultimately show ?thesis by (intro put[of d]) simp_all
next
  case shape
  show ?thesis
  proof (cases "get_tf_shape_attr node")
    case None
    with assms have "fst s' = fst s" unfolding shape convert_attr_shape by auto
    then show ?thesis by (intro keep) (simp_all add: shape None)
  next
    case (Some sh)
    with assms have "fst s' = AList.update ''shape'' (PList (map PInt sh)) (fst s)"
      unfolding shape convert_attr_shape by auto
    then show ?thesis by (intro put[of "PList (map PInt sh)"]) (simp_all add: shape Some)
  qed
next
  case Tperm
  from assms have "fst s' = fst s" unfolding Tperm convert_attr_Tperm by auto
  then show ?thesis by (intro keep) (simp_all add: Tperm)
next
  case val
  from assms obtain v0 t where "map_of (n_attr node) ''value'' = Some v0"
    "tf_to_onnx_tensor v0 (port_name (n_name node)) = Inr t"
    "s' = (AList.update ''value'' (POnnxTensor t) (fst s), count_attr ''value'' (snd s))"
    unfolding val convert_attr_value by (auto simp: get_attr_Inr split: sum.splits)
  then show ?thesis by (intro put[of "POnnxTensor t"]) (simp_all add: val)
next
  case DstT
  from assms obtain x d where "map_of (n_attr node) ''DstT'' = Some x" "map_tf_dtype x = Inr d"
    "s' = (AList.update ''to'' d (fst s), count_attr ''DstT'' (snd s))"
    unfolding DstT convert_attr_DstT by (auto simp: get_attr_Inr split: sum.splits)
  then show ?thesis by (intro to[of x d]) (simp_all add: DstT)
next
  case SrcT
  from assms have "fst s' = fst s" unfolding SrcT convert_attr_SrcT by auto
  then show ?thesis by (intro keep) (simp_all add: SrcT)
next
  case ignored
  from assms have "fst s' = fst s" unfolding convert_attr_ignored[OF ignored] by auto
  then show ?thesis using ignored(4,6,7) by (intro keep) simp_all
next
  case other
  from assms obtain v where "fst s' = AList.update a v (fst s)"
    unfolding convert_attr_other[OF other] by (auto split: sum.splits)
  then show ?thesis using other(4,6,7,8) by (intro put[of v]) simp_all
qed

lemma convert_attr_state:
  assumes "convert_attr node a s = Inr s'"
  obtains (same) "snd s' = count_attr a (snd s)" "\<not> (a = ''T'' \<and> has_node_dtype node)"
  | (rec) d where "a = ''T''" "has_node_dtype node"
      "snd s' = (count_attr a (snd s))\<lparr>dtypes := (dtypes (snd s))(n_name node \<mapsto> d)\<rparr>"
proof (cases a rule: convert_attr_branches)
  case dtype
  from assms obtain v d where "s' = (AList.update ''dtype'' d (fst s), count_attr ''dtype'' (snd s))"
    unfolding dtype convert_attr_dtype by (auto simp: get_attr_Inr split: sum.splits)
  then show ?thesis by (intro same) (simp_all add: dtype)
next
  case T
  from assms obtain dtype where g: "map_of (n_attr node) ''T'' = Some dtype"
    and r: "(if truthy dtype \<and> \<not> isinstance_list dtype then
             (case map_tf_dtype dtype of
                Inl e \<Rightarrow> Inl e
              | Inr d \<Rightarrow> Inr (fst s, (count_attr ''T'' (snd s))\<lparr>dtypes := (dtypes (snd s))(n_name node \<mapsto> d)\<rparr>))
           else Inr (fst s, count_attr ''T'' (snd s))) = Inr s'"
    unfolding T convert_attr_T by (auto simp: get_attr_Inr split: sum.splits)
  show ?thesis
  proof (cases "truthy dtype \<and> \<not> isinstance_list dtype")
    case True
    with r obtain d where "snd s' = (count_attr ''T'' (snd s))\<lparr>dtypes := (dtypes (snd s))(n_name node \<mapsto> d)\<rparr>"
      by (auto split: sum.splits)
    moreover from True g have "has_node_dtype node" by (simp add: has_node_dtype_def)
    ultimately show ?thesis by (intro rec[of d]) (simp_all add: T)
  next
    case False
    with r have "snd s' = count_attr ''T'' (snd s)" by auto
    moreover from False g have "\<not> has_node_dtype node" by (simp add: has_node_dtype_def)
    ultimately show ?thesis by (intro same) (simp_all add: T)
  qed
next
  case out_type
  from assms obtain v d where "s' = (AList.update a d (fst s), count_attr a (snd s))"
    unfolding convert_attr_out_type[OF out_type] by (auto simp: get_attr_Inr split: sum.splits)
  then show ?thesis using out_type(2) by (intro same) simp_all
next
  case shape
  from assms have "snd s' = count_attr ''shape'' (snd s)"
    unfolding shape convert_attr_shape by (auto split: option.splits)
  then show ?thesis by (intro same) (simp_all add: shape)
next
  case Tperm
  from assms have "snd s' = count_attr ''Tperm'' (snd s)" unfolding Tperm convert_attr_Tperm by auto
  then show ?thesis by (intro same) (simp_all add: Tperm)
next
  case val
  from assms have "snd s' = count_attr ''value'' (snd s)"
    unfolding val convert_attr_value by (auto split: sum.splits)
  then show ?thesis by (intro same) (simp_all add: val)
next
  case DstT
  from assms obtain x d where "s' = (AList.update ''to'' d (fst s), count_attr ''DstT'' (snd s))"
    unfolding DstT convert_attr_DstT by (auto simp: get_attr_Inr split: sum.splits)
  then show ?thesis by (intro same) (simp_all add: DstT)
next
  case SrcT
  from assms have "snd s' = count_attr ''SrcT'' (snd s)" unfolding SrcT convert_attr_SrcT by auto
  then show ?thesis by (intro same) (simp_all add: SrcT)
next
  case ignored
  from assms have "snd s' = count_attr a (snd s)" unfolding convert_attr_ignored[OF ignored] by auto
  then show ?thesis using ignored(2) by (intro same) simp_all
next
  case other
  from assms have "snd s' = count_attr a (snd s)"
    unfolding convert_attr_other[OF other] by (auto split: sum.splits)
  then show ?thesis using other(2) by (intro same) simp_all
qed

subsection \<open>The conversion of the nodes\<close>

lemma convert_attr_tables:
  assumes "convert_attr node a s = Inr s'"
  shows "output_shapes (snd s') = output_shapes (snd s) \<and> onnx_nodes (snd s') = onnx_nodes (snd s)"
  using assms by (cases rule: convert_attr_state) (simp_all add: count_attr_def)

lemma convert_attr_dtypes_dom:
  assumes "convert_attr node a s = Inr s'"
  shows "dom (dtypes (snd s')) =
     dom (dtypes (snd s)) \<union> (if a = ''T'' \<and> has_node_dtype node then {n_name node} else {})"
  using assms by (cases rule: convert_attr_state) (auto simp: count_attr_def)

lemma convert_attrs_tables:
  "convert_attrs node as s = Inr s' \<Longrightarrow>
   output_shapes (snd s') = output_shapes (snd s) \<and> onnx_nodes (snd s') = onnx_nodes (snd s)"
proof (induction as arbitrary: s)
  case Nil
  then show ?case by simp
next
  case (Cons a as)
  from Cons.prems obtain s1 where s1: "convert_attr node a s = Inr s1"
    and s2: "convert_attrs node as s1 = Inr s'"
    by (auto split: sum.splits)
  show ?case using Cons.IH[OF s2] convert_attr_tables[OF s1] by simp
qed

lemma convert_attrs_dtypes_dom:
  "convert_attrs node as s = Inr s' \<Longrightarrow>
   dom (dtypes (snd s')) =
     dom (dtypes (snd s)) \<union> (if ''T'' \<in> set as \<and> has_node_dtype node then {n_name node} else {})"
proof (induction as arbitrary: s)
  case Nil
  then show ?case by simp
next
  case (Cons a as)
  from Cons.prems obtain s1 where s1: "convert_attr node a s = Inr s1"
    and s2: "convert_attrs node as s1 = Inr s'"
    by (auto split: sum.splits)
  show ?case using Cons.IH[OF s2] convert_attr_dtypes_dom[OF s1] by auto
qed

lemma has_node_dtype_key: "has_node_dtype node \<Longrightarrow> ''T'' \<in> set (map fst (n_attr node))"
  unfolding has_node_dtype_def
  by (auto split: option.splits dest: map_of_SomeD simp: rev_image_eqI)

lemma convert_node_Inr:
  assumes "convert_node node st = Inr st'"
  shows "\<exists>onnx_node. onnx_nodes st' = onnx_nodes st @ [onnx_node] \<and> converted_from node onnx_node"
    and "output_shapes st' = output_shapes st"
    and "dom (dtypes st') = dom (dtypes st) \<union> (if has_node_dtype node then {n_name node} else {})"
proof -
  let ?st = "st\<lparr>op_cnt := counter_incr (op_cnt st) (n_type node)\<rparr>"
  from assms obtain s onnx_node where
    run: "convert_attrs node (map fst (n_attr node)) ([], ?st) = Inr s"
    and mk: "make_node (n_type node) (map t_name (n_inputs node)) (map t_name (n_outputs node))
               (n_name node) (fst s) = Inr onnx_node"
    and st': "st' = (snd s)\<lparr>onnx_nodes := onnx_nodes (snd s) @ [onnx_node]\<rparr>"
    unfolding convert_node_def Let_def by (auto split: sum.splits)
  from mk have fields: "o_attribute onnx_node = fst s" "o_op_type onnx_node = n_type node"
    "o_input onnx_node = map t_name (n_inputs node)" "o_output onnx_node = map t_name (n_outputs node)"
    "o_name onnx_node = n_name node"
    unfolding make_node_def by (auto split: if_splits)
  have "converted_from node onnx_node"
    unfolding converted_from_def using run fields
    by (metis prod.collapse)
  moreover have "onnx_nodes st' = onnx_nodes st @ [onnx_node]"
    using convert_attrs_tables[OF run] st' by simp
  ultimately show "\<exists>onnx_node. onnx_nodes st' = onnx_nodes st @ [onnx_node] \<and> converted_from node onnx_node"
    by blast
  show "output_shapes st' = output_shapes st"
    using convert_attrs_tables[OF run] st' by simp
  show "dom (dtypes st') = dom (dtypes st) \<union> (if has_node_dtype node then {n_name node} else {})"
    using convert_attrs_dtypes_dom[OF run] st' has_node_dtype_key[of node] by auto
qed

lemma convert_nodes_Inr:
  "convert_nodes ops st = Inr st' \<Longrightarrow>
   (\<exists>ns. onnx_nodes st' = onnx_nodes st @ ns \<and> list_all2 converted_from ops ns)
   \<and> output_shapes st' = output_shapes st
   \<and> dom (dtypes st') = dom (dtypes st) \<union> n_name ` {node \<in> set ops. has_node_dtype node}"
proof (induction ops arbitrary: st)
  case Nil
  then show ?case by simp
next
  case (Cons node ops)
  from Cons.prems obtain st1 where s1: "convert_node node st = Inr st1"
    and s2: "convert_nodes ops st1 = Inr st'"
    by (auto split: sum.splits)
  from convert_node_Inr(1)[OF s1] obtain n where
    n: "onnx_nodes st1 = onnx_nodes st @ [n]" "converted_from node n" by blast
  from Cons.IH[OF s2] obtain ns where
    ns: "onnx_nodes st' = onnx_nodes st1 @ ns" "list_all2 converted_from ops ns" by blast
  have "onnx_nodes st' = onnx_nodes st @ (n # ns) \<and> list_all2 converted_from (node # ops) (n # ns)"
    using n ns by simp
  then have A: "\<exists>ns. onnx_nodes st' = onnx_nodes st @ ns \<and> list_all2 converted_from (node # ops) ns"
    by blast
  have B: "output_shapes st' = output_shapes st"
    using Cons.IH[OF s2] convert_node_Inr(2)[OF s1] by simp
  have C: "dom (dtypes st') = dom (dtypes st) \<union> n_name ` {n \<in> set (node # ops). has_node_dtype n}"
    using Cons.IH[OF s2] convert_node_Inr(3)[OF s1] by auto
  from A B C show ?case by blast
qed

lemma tflist_to_onnx_Inr:
  assumes "tflist_to_onnx node_list so = Inr t"
  shows "list_all2 converted_from node_list (onnx_nodes t)"
    and "output_shapes t = map_of (rev (map (\<lambda>out. (t_name out,
        if dict_get so (t_name out) = None then get_tf_tensor_shape out else dict_get so (t_name out)))
          (concat (map n_outputs node_list))))"
    and "dom (dtypes t) = t_name ` set (concat (map n_outputs node_list))
           \<union> n_name ` {node \<in> set node_list. has_node_dtype node}"
proof -
  from assms obtain st where s1: "scan_nodes so node_list init_tables = Inr st"
    and s2: "convert_nodes node_list st = Inr t"
    unfolding tflist_to_onnx_def by (auto split: sum.splits)
  have i: "onnx_nodes init_tables = []" "output_shapes init_tables = Map.empty"
    "dtypes init_tables = Map.empty"
    by (simp_all add: init_tables_def)
  show "list_all2 converted_from node_list (onnx_nodes t)"
    using convert_nodes_Inr[OF s2] scan_nodes_dom[OF s1] i by auto
  show "output_shapes t = map_of (rev (map (\<lambda>out. (t_name out,
        if dict_get so (t_name out) = None then get_tf_tensor_shape out else dict_get so (t_name out)))
          (concat (map n_outputs node_list))))"
    using convert_nodes_Inr[OF s2] scan_nodes_shapes[OF s1] i by simp
  show "dom (dtypes t) = t_name ` set (concat (map n_outputs node_list))
           \<union> n_name ` {node \<in> set node_list. has_node_dtype node}"
    using convert_nodes_Inr[OF s2] scan_nodes_dom[OF s1] i by simp
qed

lemma convert_attrs_invariant:
  assumes "convert_attrs node as s = Inr s'"
    and "P s"
    and "\<And>a s s'. a \<in> set as \<Longrightarrow> P s \<Longrightarrow> convert_attr node a s = Inr s' \<Longrightarrow> P s'"
  shows "P s'"
  using assms
proof (induction as arbitrary: s)
  case Nil
  then show ?case by simp
next
  case (Cons a as)
  from Cons.prems(1) obtain s1 where s1: "convert_attr node a s = Inr s1"
    and s2: "convert_attrs node as s1 = Inr s'"
    by (auto split: sum.splits)
  have p1: "P s1" using Cons.prems(3)[OF _ Cons.prems(2) s1] by simp
  show ?case
  proof (rule Cons.IH[OF s2 p1])
    fix b t t'
    assume "b \<in> set as" "P t" "convert_attr node b t = Inr t'"
    then show "P t'" using Cons.prems(3)[of b t t'] by simp
  qed
qed

lemma convert_attrs_append:
  "convert_attrs node (xs @ ys) s =
     (case convert_attrs node xs s of Inl e \<Rightarrow> Inl e | Inr s1 \<Rightarrow> convert_attrs node ys s1)"
  by (induction xs arbitrary: s) (auto split: sum.splits)

lemma convert_attrs_fails:
  assumes "\<And>s. isl (convert_attr node a s)" and "a \<in> set as"
  shows "isl (convert_attrs node as s)"
  using assms(2)
proof (induction as arbitrary: s)
  case Nil
  then show ?case by simp
next
  case (Cons b as)
  show ?case
  proof (cases "convert_attr node b s")
    case (Inl e)
    then show ?thesis by simp
  next
    case (Inr s1)
    show ?thesis
    proof (cases "b = a")
      case True
      with Inr assms(1)[of s] show ?thesis by simp
    next
      case False
      with Cons.prems have "a \<in> set as" by simp
      from Cons.IH[OF this] Inr show ?thesis by simp
    qed
  qed
qed

lemma convert_nodes_fails:
  assumes "\<And>st. isl (convert_node node st)" and "node \<in> set ops"
  shows "isl (convert_nodes ops st)"
  using assms(2)
proof (induction ops arbitrary: st)
  case Nil
  then show ?case by simp
next
  case (Cons b ops)
  show ?case
  proof (cases "convert_node b st")
    case (Inl e)
    then show ?thesis by simp
  next
    case (Inr s1)
    show ?thesis
    proof (cases "b = node")
      case True
      with Inr assms(1)[of st] show ?thesis by simp
    next
      case False
      with Cons.prems have "node \<in> set ops" by simp
      from Cons.IH[OF this] Inr show ?thesis by simp
    qed
  qed
qed

lemma attr_key: "map_of (n_attr node) k = Some v \<Longrightarrow> k \<in> set (map fst (n_attr node))"
  by (auto dest: map_of_SomeD simp: rev_image_eqI)

lemma tf_to_onnx_tensor_opaque:
  assumes "Opaque \<in> set flat"
  shows "tf_to_onnx_tensor (PTensorProto (ObjArray shp flat)) name = Inl (RuntimeError ''Not support type'')"
proof -
  have "astype_str flat = None"
    using assms by (induction flat rule: astype_str.induct) auto
  moreover from assms have "flat \<noteq> []" by auto
  ultimately show ?thesis
    by (simp add: tf_to_onnx_tensor_def get_tf_tensor_data_def MakeNdarray_def isinstance_ndarray_def make_sure_def isinstance_TensorProto_def
        split: list.splits)
qed

lemma astype_str_Text: "astype_str (map Text strs) = Some strs"
  by (induction strs) simp_all

lemma from_array_name: "from_array arr name = Inr t \<Longrightarrow> ot_name t = name"
  by (auto simp: from_array_def split: ndarray.splits option.splits)

lemma tf_to_onnx_tensor_name:
  "tf_to_onnx_tensor tensor name = Inr t \<Longrightarrow> ot_name t = name"
  by (auto simp: tf_to_onnx_tensor_def dest: from_array_name
      split: sum.splits ndarray.splits option.splits list.splits)

lemma np_type_inverse:
  "NP_TYPE_TO_TENSOR_TYPE c = Some t \<Longrightarrow> TENSOR_TYPE_TO_NP_TYPE t = Some c \<and> t \<noteq> ONNX_STRING"
  by (auto simp: NP_TYPE_TO_TENSOR_TYPE_def TENSOR_TYPE_TO_NP_TYPE_def tensor_np_types_def
      split: if_splits)

lemma convert_attrs_establish:
  assumes "convert_attrs node as s = Inr s'"
    and "a \<in> set as"
    and "\<And>s s'. convert_attr node a s = Inr s' \<Longrightarrow> Q s'"
    and "\<And>b s s'. b \<in> set as \<Longrightarrow> Q s \<Longrightarrow> convert_attr node b s = Inr s' \<Longrightarrow> Q s'"
  shows "Q s'"
proof -
  from assms(2) obtain pre post where split: "as = pre @ a # post"
    by (auto simp: in_set_conv_decomp)
  from assms(1) obtain s1 s2 where
    "convert_attr node a s1 = Inr s2" and post: "convert_attrs node post s2 = Inr s'"
    unfolding split convert_attrs_append by (auto split: sum.splits)
  then have q2: "Q s2" using assms(3) by blast
  show ?thesis
  proof (rule convert_attrs_invariant[where P = Q, OF post q2])
    fix b t t'
    assume "b \<in> set post" "Q t" "convert_attr node b t = Inr t'"
    then show "Q t'" using assms(4)[of b t t'] split by simp
  qed
qed

lemma no_DstT_SrcT_entries:
  assumes "convert_attrs node as ([], st) = Inr s'"
  shows "map_of (fst s') ''DstT'' = None \<and> map_of (fst s') ''SrcT'' = None"
proof (rule convert_attrs_invariant[OF assms])
  show "map_of (fst ([], st)) ''DstT'' = None \<and> map_of (fst ([], st)) ''SrcT'' = None"
    by simp
next
  fix a s s'
  assume inv: "map_of (fst s) ''DstT'' = None \<and> map_of (fst s) ''SrcT'' = None"
    and step: "convert_attr node a s = Inr s'"
  from step show "map_of (fst s') ''DstT'' = None \<and> map_of (fst s') ''SrcT'' = None"
    using inv by (cases rule: convert_attr_attr) (simp_all add: update_conv')
qed

lemma no_shape_entry:
  assumes "convert_attrs node as ([], st) = Inr s'" and "get_tf_shape_attr node = None"
  shows "map_of (fst s') ''shape'' = None"
proof (rule convert_attrs_invariant[OF assms(1)])
  show "map_of (fst ([], st)) ''shape'' = None"
    by simp
next
  fix a s s'
  assume inv: "map_of (fst s) ''shape'' = None"
    and step: "convert_attr node a s = Inr s'"
  from step show "map_of (fst s') ''shape'' = None"
    using inv assms(2) by (cases rule: convert_attr_attr) (auto simp: update_conv')
qed

lemma value_entry:
  assumes "convert_attrs node as s = Inr s'" and "''value'' \<in> set as"
  shows "\<exists>v t. map_of (n_attr node) ''value'' = Some v
           \<and> tf_to_onnx_tensor v (port_name (n_name node)) = Inr t
           \<and> map_of (fst s') ''value'' = Some (POnnxTensor t)"
proof (rule convert_attrs_establish[OF assms])
  fix s s'
  assume "convert_attr node ''value'' s = Inr s'"
  then show "\<exists>v t. map_of (n_attr node) ''value'' = Some v
           \<and> tf_to_onnx_tensor v (port_name (n_name node)) = Inr t
           \<and> map_of (fst s') ''value'' = Some (POnnxTensor t)"
    by (cases rule: convert_attr_attr) (auto simp: update_conv')
next
  fix b s s'
  assume q: "\<exists>v t. map_of (n_attr node) ''value'' = Some v
           \<and> tf_to_onnx_tensor v (port_name (n_name node)) = Inr t
           \<and> map_of (fst s) ''value'' = Some (POnnxTensor t)"
    and step: "convert_attr node b s = Inr s'"
  from step show "\<exists>v t. map_of (n_attr node) ''value'' = Some v
           \<and> tf_to_onnx_tensor v (port_name (n_name node)) = Inr t
           \<and> map_of (fst s') ''value'' = Some (POnnxTensor t)"
    using q by (cases rule: convert_attr_attr) (auto simp: update_conv')
qed

lemma to_entry:
  assumes "convert_attrs node as s = Inr s'"
    and "map_of (n_attr node) ''DstT'' = Some x"
    and "''DstT'' \<in> set as"
    and "''to'' \<notin> set (tl (dropWhile (\<lambda>k. k \<noteq> ''DstT'') as))"
  shows "\<exists>d. map_tf_dtype x = Inr d \<and> map_of (fst s') ''to'' = Some d"
proof -
  let ?pre = "takeWhile (\<lambda>k. k \<noteq> ''DstT'') as" and ?rest = "dropWhile (\<lambda>k. k \<noteq> ''DstT'') as"
  from assms(3) have ne: "?rest \<noteq> []" by (auto simp: dropWhile_eq_Nil_conv)
  then have hd: "hd ?rest = ''DstT''" using hd_dropWhile[of "\<lambda>k. k \<noteq> ''DstT''" as] by blast
  define post where "post = tl ?rest"
  have split: "as = ?pre @ ''DstT'' # post"
    using ne hd unfolding post_def
    by (metis list.collapse takeWhile_dropWhile_id)
  from assms(1) obtain s1 s2 where
    step: "convert_attr node ''DstT'' s1 = Inr s2" and post: "convert_attrs node post s2 = Inr s'"
    by (subst (asm) split) (auto simp: convert_attrs_append split: sum.splits)
  from step obtain d where d: "map_tf_dtype x = Inr d" "map_of (fst s2) ''to'' = Some d"
    using assms(2) by (cases rule: convert_attr_attr) (auto simp: update_conv')
  have "map_of (fst s') ''to'' = Some d"
  proof (rule convert_attrs_invariant[where P = "\<lambda>s. map_of (fst s) ''to'' = Some d", OF post d(2)])
    fix b t t'
    assume b: "b \<in> set post" and inv: "map_of (fst t) ''to'' = Some d"
      and run: "convert_attr node b t = Inr t'"
    from b assms(4) have "b \<noteq> ''to''" unfolding post_def by auto
    with run show "map_of (fst t') ''to'' = Some d"
      using inv assms(2) d(1) by (cases rule: convert_attr_attr) (auto simp: update_conv')
  qed
  with d(1) show ?thesis by blast
qed

subsection \<open>A shape attribute that resolves to nothing\<close>

lemma all_but_attr_cnt_eq:
  "all_but_attr_cnt st1 = all_but_attr_cnt st2 \<longleftrightarrow> st2 = st1\<lparr>attr_cnt := attr_cnt st2\<rparr>"
  by (cases st1, cases st2) (auto simp: all_but_attr_cnt_def)

lemma all_but_attr_cnt_simps [simp]:
  "all_but_attr_cnt (st\<lparr>attr_cnt := c\<rparr>) = all_but_attr_cnt st"
  "all_but_attr_cnt (count_attr a st) = all_but_attr_cnt st"
  by (simp_all add: all_but_attr_cnt_def count_attr_def)

lemma convert_attr_attr_cnt:
  "convert_attr node a (attr, st\<lparr>attr_cnt := c\<rparr>) =
     map_sum id (\<lambda>s. (fst s, (snd s)\<lparr>attr_cnt := counter_incr c a\<rparr>)) (convert_attr node a (attr, st))"
proof (cases a rule: convert_attr_branches)
  case dtype
  then show ?thesis by (simp add: convert_attr_dtype count_attr_def split: sum.splits)
next
  case T
  then show ?thesis by (simp add: convert_attr_T count_attr_def split: sum.splits)
next
  case out_type
  show ?thesis unfolding convert_attr_out_type[OF out_type]
    by (simp add: count_attr_def split: sum.splits)
next
  case shape
  then show ?thesis by (simp add: convert_attr_shape count_attr_def split: option.splits)
next
  case Tperm
  then show ?thesis by (simp add: convert_attr_Tperm count_attr_def)
next
  case val
  then show ?thesis by (simp add: convert_attr_value count_attr_def split: sum.splits)
next
  case DstT
  then show ?thesis by (simp add: convert_attr_DstT count_attr_def split: sum.splits)
next
  case SrcT
  then show ?thesis by (simp add: convert_attr_SrcT count_attr_def)
next
  case ignored
  show ?thesis unfolding convert_attr_ignored[OF ignored]
    by (simp add: count_attr_def)
next
  case other
  show ?thesis unfolding convert_attr_other[OF other]
    by (simp add: count_attr_def split: sum.splits)
qed

lemma map_of_filter_other:
  "a \<noteq> k \<Longrightarrow> map_of (filter (\<lambda>kv. fst kv \<noteq> k) xs) a = map_of xs a"
  by (induction xs) auto

lemma get_attr_without_shape:
  "a \<noteq> ''shape'' \<Longrightarrow> get_tf_node_attr (without_shape_attr node) a = get_tf_node_attr node a"
  by (simp add: get_tf_node_attr_def without_shape_attr_def map_of_filter_other)

lemma n_name_without_shape [simp]: "n_name (without_shape_attr node) = n_name node"
  by (simp add: without_shape_attr_def)

lemma convert_attr_without_shape:
  assumes "a \<noteq> ''shape''"
  shows "convert_attr (without_shape_attr node) a s = convert_attr node a s"
proof (cases a rule: convert_attr_branches)
  case dtype
  then show ?thesis by (simp add: convert_attr_dtype get_attr_without_shape)
next
  case T
  then show ?thesis by (simp add: convert_attr_T get_attr_without_shape split: sum.splits)
next
  case out_type
  show ?thesis unfolding convert_attr_out_type[OF out_type]
    using assms by (simp add: get_attr_without_shape)
next
  case shape
  with assms show ?thesis by simp
next
  case Tperm
  then show ?thesis by (simp add: convert_attr_Tperm)
next
  case val
  then show ?thesis by (simp add: convert_attr_value get_attr_without_shape split: sum.splits)
next
  case DstT
  then show ?thesis by (simp add: convert_attr_DstT get_attr_without_shape)
next
  case SrcT
  then show ?thesis by (simp add: convert_attr_SrcT)
next
  case ignored
  show ?thesis unfolding convert_attr_ignored[OF ignored] by simp
next
  case other
  show ?thesis unfolding convert_attr_other[OF other]
    using assms by (simp add: get_attr_without_shape)
qed


lemma keys_without_shape:
  "map fst (n_attr (without_shape_attr node)) = filter (\<lambda>k. k \<noteq> ''shape'') (map fst (n_attr node))"
  by (simp add: without_shape_attr_def filter_map comp_def)

lemma convert_attr_same_result:
  assumes "all_but_attr_cnt st1 = all_but_attr_cnt st2"
  shows "map_sum id (\<lambda>s. (fst s, all_but_attr_cnt (snd s))) (convert_attr node a (attr, st1))
       = map_sum id (\<lambda>s. (fst s, all_but_attr_cnt (snd s))) (convert_attr node a (attr, st2))"
proof -
  from assms have "st2 = st1\<lparr>attr_cnt := attr_cnt st2\<rparr>"
    by (simp add: all_but_attr_cnt_eq)
  then have "convert_attr node a (attr, st2) =
     map_sum id (\<lambda>s. (fst s, (snd s)\<lparr>attr_cnt := counter_incr (attr_cnt st2) a\<rparr>))
       (convert_attr node a (attr, st1))"
    using convert_attr_attr_cnt[where node = node and a = a and attr = attr and st = st1 and c = "attr_cnt st2"] by simp
  then show ?thesis
    by (cases "convert_attr node a (attr, st1)") simp_all
qed

lemma convert_attrs_same_result:
  assumes "node' = node \<or> (get_tf_shape_attr node = None \<and> node' = without_shape_attr node)"
    and "all_but_attr_cnt st1 = all_but_attr_cnt st2"
  shows "map_sum id (\<lambda>s. (fst s, all_but_attr_cnt (snd s))) (convert_attrs node as (attr, st1))
       = map_sum id (\<lambda>s. (fst s, all_but_attr_cnt (snd s)))
           (convert_attrs node' (if node' = node then as else filter (\<lambda>k. k \<noteq> ''shape'') as) (attr, st2))"
  using assms(2)
proof (induction as arbitrary: attr st1 st2)
  case Nil
  then show ?case by simp
next
  case (Cons a as)
  show ?case
  proof (cases "a = ''shape'' \<and> node' \<noteq> node")
    case True
    with assms(1) have "get_tf_shape_attr node = None" by blast
    then have step: "convert_attr node ''shape'' (attr, st1) = Inr (attr, count_attr ''shape'' st1)"
      by (simp add: convert_attr_shape)
    have "all_but_attr_cnt (count_attr ''shape'' st1) = all_but_attr_cnt st2"
      using Cons.prems by simp
    from Cons.IH[OF this, of attr] True step show ?thesis by simp
  next
    case False
    have same: "convert_attr node' a (attr, st2) = convert_attr node a (attr, st2)"
      using False assms(1) by (auto simp: convert_attr_without_shape)
    note rel = convert_attr_same_result[OF Cons.prems, of node a attr]
    show ?thesis
    proof (cases "convert_attr node a (attr, st1)")
      case (Inl e)
      with rel same False show ?thesis
        by (cases "convert_attr node a (attr, st2)") auto
    next
      case (Inr s1)
      with rel obtain s2 where s2: "convert_attr node a (attr, st2) = Inr s2"
        and eq: "fst s2 = fst s1" "all_but_attr_cnt (snd s1) = all_but_attr_cnt (snd s2)"
        by (cases "convert_attr node a (attr, st2)") auto
      from Cons.IH[OF eq(2), of "fst s1"] Inr s2 same eq(1) False show ?thesis
        by (cases s1, cases s2) auto
    qed
  qed
qed

lemma without_shape_fields [simp]:
  "n_type (without_shape_attr node) = n_type node"
  "n_inputs (without_shape_attr node) = n_inputs node"
  "n_outputs (without_shape_attr node) = n_outputs node"
  by (simp_all add: without_shape_attr_def)

lemma convert_node_same_result:
  assumes "node' = node \<or> (get_tf_shape_attr node = None \<and> node' = without_shape_attr node)"
    and "all_but_attr_cnt st1 = all_but_attr_cnt st2"
  shows "map_sum id all_but_attr_cnt (convert_node node st1)
       = map_sum id all_but_attr_cnt (convert_node node' st2)"
proof -
  let ?s1 = "st1\<lparr>op_cnt := counter_incr (op_cnt st1) (n_type node)\<rparr>"
  let ?s2 = "st2\<lparr>op_cnt := counter_incr (op_cnt st2) (n_type node)\<rparr>"
  let ?ks = "map fst (n_attr node)"
  let ?ks' = "if node' = node then ?ks else filter (\<lambda>k. k \<noteq> ''shape'') ?ks"
  have fields: "n_type node' = n_type node" "n_inputs node' = n_inputs node"
    "n_outputs node' = n_outputs node" "n_name node' = n_name node"
    using assms(1) by auto
  have keys: "map fst (n_attr node') = ?ks'"
    using assms(1) by (auto simp: keys_without_shape)
  have st: "all_but_attr_cnt ?s1 = all_but_attr_cnt ?s2"
    using assms(2) by (simp add: all_but_attr_cnt_def)
  note run = convert_attrs_same_result[OF assms(1) st, of ?ks "[]"]
  show ?thesis
  proof (cases "convert_attrs node ?ks ([], ?s1)")
    case (Inl e)
    with run have "convert_attrs node' ?ks' ([], ?s2) = Inl e"
      by (cases "convert_attrs node' ?ks' ([], ?s2)") auto
    with Inl show ?thesis
      unfolding convert_node_def Let_def fields keys by simp
  next
    case (Inr r1)
    with run obtain r2 where r2: "convert_attrs node' ?ks' ([], ?s2) = Inr r2"
      and eq: "fst r2 = fst r1" "all_but_attr_cnt (snd r1) = all_but_attr_cnt (snd r2)"
      by (cases "convert_attrs node' ?ks' ([], ?s2)") auto
    from Inr r2 eq show ?thesis
      unfolding convert_node_def Let_def fields keys
      by (auto simp: all_but_attr_cnt_def split: sum.splits)
  qed
qed

lemma convert_nodes_same_result:
  assumes "list_all2 (\<lambda>node node'. node' = node
              \<or> (get_tf_shape_attr node = None \<and> node' = without_shape_attr node)) ops ops'"
    and "all_but_attr_cnt st1 = all_but_attr_cnt st2"
  shows "map_sum id all_but_attr_cnt (convert_nodes ops st1)
       = map_sum id all_but_attr_cnt (convert_nodes ops' st2)"
  using assms
proof (induction arbitrary: st1 st2 rule: list_all2_induct)
  case Nil
  then show ?case by simp
next
  case (Cons node ops node' ops')
  note step = convert_node_same_result[OF Cons.hyps(1) Cons.prems]
  show ?case
  proof (cases "convert_node node st1")
    case (Inl e)
    with step have "convert_node node' st2 = Inl e"
      by (cases "convert_node node' st2") auto
    with Inl show ?thesis by simp
  next
    case (Inr t1)
    with step obtain t2 where t2: "convert_node node' st2 = Inr t2"
      and eq: "all_but_attr_cnt t1 = all_but_attr_cnt t2"
      by (cases "convert_node node' st2") auto
    from Cons.IH[OF eq] Inr t2 show ?thesis by simp
  qed
qed

lemma scan_nodes_same:
  assumes "list_all2 (\<lambda>node node'. node' = node
              \<or> (get_tf_shape_attr node = None \<and> node' = without_shape_attr node)) ops ops'"
  shows "scan_nodes so ops st = scan_nodes so ops' st"
  using assms
proof (induction arbitrary: st rule: list_all2_induct)
  case Nil
  then show ?case by simp
next
  case (Cons node ops node' ops')
  from Cons.hyps(1) have "n_outputs node' = n_outputs node" by auto
  with Cons.IH show ?case by (simp split: sum.splits)
qed

lemma tflist_to_onnx_same_result:
  assumes "i < length node_list" and "get_tf_shape_attr (node_list ! i) = None"
  shows "map_sum id all_but_attr_cnt (tflist_to_onnx node_list so)
       = map_sum id all_but_attr_cnt
           (tflist_to_onnx (node_list[i := without_shape_attr (node_list ! i)]) so)"
proof -
  let ?R = "\<lambda>node node'. node' = node
              \<or> (get_tf_shape_attr node = None \<and> node' = without_shape_attr node)"
  have rel: "list_all2 ?R node_list (node_list[i := without_shape_attr (node_list ! i)])"
    using assms by (auto simp: list_all2_conv_all_nth nth_list_update)
  show ?thesis
    unfolding tflist_to_onnx_def scan_nodes_same[OF rel, symmetric]
    by (cases "scan_nodes so node_list init_tables")
       (simp_all add: convert_nodes_same_result[OF rel])
qed

subsection \<open>The example graphs, evaluated\<close>

lemma example_relu_run:
  "case tflist_to_onnx [example_relu] Map.empty of
     Inl e \<Rightarrow> False
   | Inr t \<Rightarrow>
       map o_output (onnx_nodes t) = [[''n:0'']]
       \<and> dtypes t ''n'' = Some (PInt ONNX_FLOAT)"
  by code_simp

lemma example_relu_run_override:
  "case tflist_to_onnx [example_relu] [''n:0'' \<mapsto> None] of
     Inl e \<Rightarrow> False
   | Inr t \<Rightarrow> output_shapes t ''n:0'' = Some (Some [Some 2])"
  by code_simp

lemma example_custom_run:
  "case tflist_to_onnx [example_custom] Map.empty of
     Inl e \<Rightarrow> False
   | Inr t \<Rightarrow> map_of (o_attribute (onnx_nodes t ! 0)) ''to'' = Some (PInt 5)"
  by code_simp

lemma example_graph_run: "\<not> isl (tflist_to_onnx example_graph example_override)"
  by code_simp

lemma converted_outputs:
  "list_all2 converted_from node_list ns \<Longrightarrow>
   concat (map o_output ns) = map t_name (concat (map n_outputs node_list))"
  by (induction rule: list_all2_induct) (simp_all add: converted_from_def)

section \<open>Claims\<close>

subsection \<open>Graph converter: key sets of the tables\<close>

text \<open>
  C1 (as amended). After a successful run of \<open>tflist_to_onnx\<close>, the key set of the
  shape-by-output table is exactly the set of output names in the output lists of the returned
  converted nodes. The key set of the dtype-by-output table is that set together with the
  name of every node whose attribute \<open>T\<close> is a single (truthy, non-list) type: the type of
  such a node is recorded under the node's own name.
\<close>

theorem table_key_sets:
  assumes "tflist_to_onnx node_list shape_override = Inr t"
  shows "dom (output_shapes t) = set (concat (map o_output (onnx_nodes t)))
   \<and> dom (dtypes t) = set (concat (map o_output (onnx_nodes t)))
        \<union> n_name ` {node \<in> set node_list. has_node_dtype node}"
proof -
  have outs: "concat (map o_output (onnx_nodes t)) = map t_name (concat (map n_outputs node_list))"
    using tflist_to_onnx_Inr(1)[OF assms] by (rule converted_outputs)
  have "dom (output_shapes t) = t_name ` set (concat (map n_outputs node_list))"
    unfolding tflist_to_onnx_Inr(2)[OF assms] dom_map_of_conv_image_fst
    by (simp add: image_image del: set_concat)
  moreover note tflist_to_onnx_Inr(3)[OF assms]
  ultimately show ?thesis unfolding outs by (simp del: set_concat)
qed

theorem table_key_sets_witness:
  "\<not> isl (tflist_to_onnx [example_relu] Map.empty)
   \<and> dom (output_shapes (projr (tflist_to_onnx [example_relu] Map.empty)))
       = set (concat (map o_output (onnx_nodes (projr (tflist_to_onnx [example_relu] Map.empty)))))
   \<and> dom (dtypes (projr (tflist_to_onnx [example_relu] Map.empty)))
       = set (concat (map o_output (onnx_nodes (projr (tflist_to_onnx [example_relu] Map.empty)))))
         \<union> {''n''}"
proof -
  from example_relu_run obtain t where r: "tflist_to_onnx [example_relu] Map.empty = Inr t"
    by (auto split: sum.splits)
  have h: "n_name ` {node \<in> set [example_relu]. has_node_dtype node} = {''n''}"
    by (auto simp: example_relu_def has_node_dtype_def isinstance_list_def)
  from table_key_sets[OF r] show ?thesis
    unfolding r h by simp
qed

text \<open>The claim as stated fails: the node \<open>n\<close> with output \<open>n:0\<close> and a \<open>T\<close> attribute
  converts, and \<open>n\<close> is a key of the dtype table and no output name.\<close>

theorem dtype_keys_exceed_outputs:
  "\<not> isl (tflist_to_onnx [example_relu] Map.empty)
   \<and> ''n'' \<in> dom (dtypes (projr (tflist_to_onnx [example_relu] Map.empty)))
   \<and> ''n'' \<notin> set (concat (map o_output (onnx_nodes (projr (tflist_to_onnx [example_relu] Map.empty)))))
   \<and> dom (dtypes (projr (tflist_to_onnx [example_relu] Map.empty)))
       \<noteq> set (concat (map o_output (onnx_nodes (projr (tflist_to_onnx [example_relu] Map.empty)))))"
proof -
  from example_relu_run obtain t where r: "tflist_to_onnx [example_relu] Map.empty = Inr t"
    and outs: "map o_output (onnx_nodes t) = [[''n:0'']]"
    and d: "dtypes t ''n'' = Some (PInt ONNX_FLOAT)"
    by (auto split: sum.splits)
  have key: "''n'' \<in> dom (dtypes t)"
    using d by auto
  have no_output: "''n'' \<notin> set (concat (map o_output (onnx_nodes t)))"
    unfolding outs by simp
  from key no_output have "dom (dtypes t) \<noteq> set (concat (map o_output (onnx_nodes t)))"
    by auto
  with key no_output show ?thesis
    unfolding r by simp
qed

subsection \<open>Shape resolver\<close>

text \<open>
  C2 (as amended). Let \<open>x\<close> be an output name and \<open>out\<close> the last output of that name in
  scan order. After a successful run, if the shape-override table has an entry for \<open>x\<close> that
  is not \<open>None\<close>, the shape recorded for \<open>x\<close> is that entry, whatever the static shape of
  \<open>out\<close>. If the table has no entry for \<open>x\<close>, or the entry is \<open>None\<close>, the static shape
  of \<open>out\<close> is recorded, and that is \<open>None\<close> when the rank of \<open>out\<close> is unknown.
\<close>

theorem resolved_shape:
  assumes "tflist_to_onnx node_list shape_override = Inr t"
    and "List.find (\<lambda>out. t_name out = x) (rev (concat (map n_outputs node_list))) = Some out"
  shows "(\<forall>s. shape_override x = Some (Some s) \<longrightarrow> output_shapes t x = Some (Some s))
   \<and> (shape_override x = None \<or> shape_override x = Some None \<longrightarrow>
        output_shapes t x = Some (get_tf_tensor_shape out))
   \<and> get_tf_tensor_shape out = (case t_shape out of UnknownShape \<Rightarrow> None | KnownShape ds \<Rightarrow> Some ds)"
proof -
  let ?g = "\<lambda>out. if dict_get shape_override (t_name out) = None then get_tf_tensor_shape out
                  else dict_get shape_override (t_name out)"
  have n: "t_name out = x"
    using assms(2) by (auto simp: find_Some_iff)
  have "output_shapes t x = map_option ?g (List.find (\<lambda>out. t_name out = x) (rev (concat (map n_outputs node_list))))"
    unfolding tflist_to_onnx_Inr(2)[OF assms(1)] rev_map by (rule map_of_find)
  then have "output_shapes t x = Some (?g out)"
    unfolding assms(2) by simp
  then show ?thesis
    unfolding n by (auto simp: dict_get_def get_tf_tensor_shape_def split: tensor_shape.splits)
qed

theorem resolved_shape_witness:
  "\<not> isl (tflist_to_onnx example_graph example_override)
   \<and> output_shapes (projr (tflist_to_onnx example_graph example_override)) ''y:0'' = Some (Some [Some 2, Some 3])
   \<and> output_shapes (projr (tflist_to_onnx example_graph example_override)) ''c:0'' = Some (Some [])
   \<and> output_shapes (projr (tflist_to_onnx example_graph example_override)) ''x:0'' = Some None"
proof -
  from example_graph_run obtain t where r: "tflist_to_onnx example_graph example_override = Inr t"
    by (cases "tflist_to_onnx example_graph example_override") auto
  have y: "List.find (\<lambda>out. t_name out = ''y:0'') (rev (concat (map n_outputs example_graph)))
      = Some \<lparr>t_name = ''y:0'', t_dtype = PDType DT_INT32, t_shape = KnownShape [Some 2, None]\<rparr>"
    by (simp add: example_graph_def)
  have c: "List.find (\<lambda>out. t_name out = ''c:0'') (rev (concat (map n_outputs example_graph)))
      = Some \<lparr>t_name = ''c:0'', t_dtype = PDType DT_INT32, t_shape = KnownShape []\<rparr>"
    by (simp add: example_graph_def)
  have x: "List.find (\<lambda>out. t_name out = ''x:0'') (rev (concat (map n_outputs example_graph)))
      = Some \<lparr>t_name = ''x:0'', t_dtype = PDType DT_FLOAT, t_shape = UnknownShape\<rparr>"
    by (simp add: example_graph_def)
  from resolved_shape[OF r y] resolved_shape[OF r c] resolved_shape[OF r x] show ?thesis
    unfolding r by (simp add: example_override_def)
qed

text \<open>The claim as stated fails: an override entry may be \<open>None\<close>, and then the static shape
  is recorded, not the entry.\<close>

theorem none_override_not_recorded:
  "[''n:0'' \<mapsto> None] ''n:0'' = Some (None :: shape)
   \<and> \<not> isl (tflist_to_onnx [example_relu] [''n:0'' \<mapsto> None])
   \<and> output_shapes (projr (tflist_to_onnx [example_relu] [''n:0'' \<mapsto> None])) ''n:0'' = Some (Some [Some 2])"
  using example_relu_run_override by (auto split: sum.splits)

subsection \<open>Type mapper\<close>

text \<open>
  C3 (as amended). For every input of \<open>map_tf_dtype\<close>: \<open>None\<close> yields \<open>None\<close>, and every
  falsy input (\<open>0\<close>, \<open>False\<close>, the empty string, the empty list) yields itself; a truthy type
  code, an integer or a \<open>DType\<close> object, that is a key of the table yields the table's target
  code, \<open>True\<close> counting as the code \<open>1\<close>. The call raises \<open>KeyError\<close> (the unsupported-type
  failure) exactly when the input is truthy and is a type code absent from the table or a
  string; it raises \<open>TypeError\<close> exactly when the input is truthy and unhashable (a list or a
  protobuf message); it raises in no other way, and no truthy input is returned by default.
\<close>

theorem map_tf_dtype_cases:
  "map_tf_dtype PNone = Inr PNone
   \<and> (\<not> truthy dtype \<longrightarrow> map_tf_dtype dtype = Inr dtype)
   \<and> (\<forall>k t. truthy dtype \<and> (dtype = PInt k \<or> dtype = PDType k) \<and> TF_TO_ONNX_DTYPE k = Some t
         \<longrightarrow> map_tf_dtype dtype = Inr (PInt t))
   \<and> map_tf_dtype (PBool True) = Inr (PInt ONNX_FLOAT)
   \<and> (map_tf_dtype dtype = Inl KeyError \<longleftrightarrow>
        truthy dtype \<and> ((\<exists>k. (dtype = PInt k \<or> dtype = PDType k) \<and> TF_TO_ONNX_DTYPE k = None)
                        \<or> (\<exists>s. dtype = PStr s)))
   \<and> (map_tf_dtype dtype = Inl TypeError \<longleftrightarrow>
        truthy dtype \<and> ((\<exists>l. dtype = PList l) \<or> (\<exists>sh. dtype = PShape sh)
                        \<or> (\<exists>a. dtype = PTensorProto a) \<or> (\<exists>p. dtype = POnnxTensor p)))
   \<and> (isl (map_tf_dtype dtype) \<longleftrightarrow>
        map_tf_dtype dtype = Inl KeyError \<or> map_tf_dtype dtype = Inl TypeError)
   \<and> (TF_TO_ONNX_DTYPE c = Some t \<longrightarrow>
        map_tf_dtype (PInt c) = Inr (PInt t) \<and> map_tf_dtype (PDType c) = Inr (PInt t))
   \<and> (map_tf_dtype (PInt c) = Inl KeyError \<longleftrightarrow> c \<noteq> 0 \<and> TF_TO_ONNX_DTYPE c = None)
   \<and> (map_tf_dtype (PDType c) = Inl KeyError \<longleftrightarrow> TF_TO_ONNX_DTYPE c = None)"
proof -
  have z: "TF_TO_ONNX_DTYPE 0 = None" and one: "TF_TO_ONNX_DTYPE 1 = Some 1"
    by (simp_all add: TF_TO_ONNX_DTYPE_def)
  have codes: "(TF_TO_ONNX_DTYPE c = Some t \<longrightarrow>
        map_tf_dtype (PInt c) = Inr (PInt t) \<and> map_tf_dtype (PDType c) = Inr (PInt t))
   \<and> (map_tf_dtype (PInt c) = Inl KeyError \<longleftrightarrow> c \<noteq> 0 \<and> TF_TO_ONNX_DTYPE c = None)
   \<and> (map_tf_dtype (PDType c) = Inl KeyError \<longleftrightarrow> TF_TO_ONNX_DTYPE c = None)"
    using z by (cases "c = 0") (auto simp: map_tf_dtype_def table_get_def split: option.splits)
  have true: "map_tf_dtype (PBool True) = Inr (PInt ONNX_FLOAT)"
    using one by (simp add: map_tf_dtype_def table_get_def)
  have every: "(\<not> truthy dtype \<longrightarrow> map_tf_dtype dtype = Inr dtype)
   \<and> (\<forall>k t. truthy dtype \<and> (dtype = PInt k \<or> dtype = PDType k) \<and> TF_TO_ONNX_DTYPE k = Some t
         \<longrightarrow> map_tf_dtype dtype = Inr (PInt t))
   \<and> (map_tf_dtype dtype = Inl KeyError \<longleftrightarrow>
        truthy dtype \<and> ((\<exists>k. (dtype = PInt k \<or> dtype = PDType k) \<and> TF_TO_ONNX_DTYPE k = None)
                        \<or> (\<exists>s. dtype = PStr s)))
   \<and> (map_tf_dtype dtype = Inl TypeError \<longleftrightarrow>
        truthy dtype \<and> ((\<exists>l. dtype = PList l) \<or> (\<exists>sh. dtype = PShape sh)
                        \<or> (\<exists>a. dtype = PTensorProto a) \<or> (\<exists>p. dtype = POnnxTensor p)))
   \<and> (isl (map_tf_dtype dtype) \<longleftrightarrow>
        map_tf_dtype dtype = Inl KeyError \<or> map_tf_dtype dtype = Inl TypeError)"
  proof (cases dtype)
    case (PBool b)
    then show ?thesis using one by (auto simp: map_tf_dtype_def table_get_def)
  qed (auto simp: map_tf_dtype_def table_get_def split: option.splits)
  have none: "map_tf_dtype PNone = Inr PNone"
    by (simp add: map_tf_dtype_def)
  from none codes true every show ?thesis
    by blast
qed

theorem map_tf_dtype_cases_witness:
  "map_tf_dtype PNone = Inr PNone
   \<and> map_tf_dtype (PDType DT_INT32) = Inr (PInt ONNX_INT32)
   \<and> map_tf_dtype (PInt DT_INT32) = Inr (PInt ONNX_INT32)
   \<and> map_tf_dtype (PDType 21) = Inl KeyError
   \<and> map_tf_dtype (PInt 21) = Inl KeyError
   \<and> map_tf_dtype (PStr ''float'') = Inl KeyError
   \<and> map_tf_dtype (PList [PInt DT_INT32]) = Inl TypeError
   \<and> map_tf_dtype (PStr []) = Inr (PStr [])
   \<and> \<not> isl (map_tf_dtype (PInt 0))"
proof -
  have t: "TF_TO_ONNX_DTYPE DT_INT32 = Some ONNX_INT32" "TF_TO_ONNX_DTYPE 21 = None"
    by (simp_all add: TF_TO_ONNX_DTYPE_def)
  from map_tf_dtype_cases[of "PStr ''float''" 3 6] map_tf_dtype_cases[of "PList [PInt 3]" 21 0]
    map_tf_dtype_cases[of "PStr []" 0 0] map_tf_dtype_cases[of "PInt 0" 0 0] t
  show ?thesis by simp
qed

text \<open>The claim as stated fails: the code \<open>0\<close> is not \<open>None\<close> and is absent from the table,
  and the call returns it unchanged.\<close>

theorem map_tf_dtype_zero_passes:
  "PInt 0 \<noteq> PNone \<and> TF_TO_ONNX_DTYPE 0 = None \<and> map_tf_dtype (PInt 0) = Inr (PInt 0)"
  by (simp add: map_tf_dtype_def TF_TO_ONNX_DTYPE_def)

text \<open>
  C10. Every falsy argument of \<open>map_tf_dtype\<close>, the integer \<open>0\<close> as well as \<open>None\<close>, is
  returned unchanged and without an error; the table is subscripted for truthy arguments
  only, so that a failure implies a truthy argument.
\<close>

theorem map_tf_dtype_falsy:
  "(\<not> truthy dtype \<longrightarrow> map_tf_dtype dtype = Inr dtype)
   \<and> (truthy dtype \<longrightarrow> map_tf_dtype dtype = table_subscript dtype)
   \<and> (isl (map_tf_dtype dtype) \<longrightarrow> truthy dtype)"
  by (auto simp: map_tf_dtype_def)

theorem map_tf_dtype_falsy_witness:
  "\<not> truthy (PInt 0) \<and> map_tf_dtype (PInt 0) = Inr (PInt 0) \<and> map_tf_dtype PNone = Inr PNone
   \<and> map_tf_dtype (PList []) = Inr (PList [])"
  using map_tf_dtype_falsy[of "PInt 0"] map_tf_dtype_falsy[of PNone] map_tf_dtype_falsy[of "PList []"]
  by simp

subsection \<open>Tensor codec\<close>

text \<open>
  C4 (as amended). For every tensor of a numeric element kind that has an element type in the
  target layout (the floats of 16, 32 and 64 bits, the signed and unsigned integers of 8 to
  64 bits, bool and the two complex kinds), \<open>tf_to_onnx_tensor\<close> returns a payload, and decoding
  the payload yields the original element kind, shape and element values exactly: the buffer
  is handed on as it is. For a numeric kind without such an element type (the quantized kinds,
  \<open>bfloat16\<close>) the codec raises \<open>RuntimeError\<close> and there is no payload.
\<close>

theorem numeric_round_trip:
  "(NP_TYPE_TO_TENSOR_TYPE c = Some t \<longrightarrow>
      (\<exists>p. tf_to_onnx_tensor (PTensorProto (NumArray c shp flat)) name = Inr p
           \<and> to_array p = Inr (NumArray c shp flat)
           \<and> ot_data_type p = t \<and> ot_dims p = shp \<and> ot_raw_data p = flat \<and> ot_name p = name))
   \<and> (NP_TYPE_TO_TENSOR_TYPE c = None \<longrightarrow>
      tf_to_onnx_tensor (PTensorProto (NumArray c shp flat)) name
        = Inl (RuntimeError ''Numpy data type not understood yet''))"
proof (intro conjI impI)
  assume t: "NP_TYPE_TO_TENSOR_TYPE c = Some t"
  let ?p = "\<lparr>ot_name = name, ot_dims = shp, ot_data_type = t, ot_raw_data = flat, ot_string_data = []\<rparr>"
  have "tf_to_onnx_tensor (PTensorProto (NumArray c shp flat)) name = Inr ?p"
    using t by (simp add: tf_to_onnx_tensor_def get_tf_tensor_data_def MakeNdarray_def
        isinstance_ndarray_def make_sure_def isinstance_TensorProto_def from_array_def)
  moreover have "to_array ?p = Inr (NumArray c shp flat)"
    using np_type_inverse[OF t] by (simp add: to_array_def)
  ultimately show "\<exists>p. tf_to_onnx_tensor (PTensorProto (NumArray c shp flat)) name = Inr p
           \<and> to_array p = Inr (NumArray c shp flat)
           \<and> ot_data_type p = t \<and> ot_dims p = shp \<and> ot_raw_data p = flat \<and> ot_name p = name"
    by simp
next
  assume "NP_TYPE_TO_TENSOR_TYPE c = None"
  then show "tf_to_onnx_tensor (PTensorProto (NumArray c shp flat)) name
        = Inl (RuntimeError ''Numpy data type not understood yet'')"
    by (simp add: tf_to_onnx_tensor_def get_tf_tensor_data_def MakeNdarray_def
        isinstance_ndarray_def make_sure_def isinstance_TensorProto_def from_array_def)
qed

theorem numeric_round_trip_witness:
  "NP_TYPE_TO_TENSOR_TYPE DT_INT32 = Some ONNX_INT32
   \<and> \<not> isl (tf_to_onnx_tensor (PTensorProto (NumArray DT_INT32 [2, 2] [1, -2, 3, 4])) ''c:0'')
   \<and> to_array (projr (tf_to_onnx_tensor (PTensorProto (NumArray DT_INT32 [2, 2] [1, -2, 3, 4])) ''c:0''))
       = Inr (NumArray DT_INT32 [2, 2] [1, -2, 3, 4])
   \<and> NP_TYPE_TO_TENSOR_TYPE DT_BFLOAT16 = None
   \<and> isl (tf_to_onnx_tensor (PTensorProto (NumArray DT_BFLOAT16 [1] [7])) ''b:0'')"
proof -
  have m: "NP_TYPE_TO_TENSOR_TYPE DT_INT32 = Some ONNX_INT32" "NP_TYPE_TO_TENSOR_TYPE DT_BFLOAT16 = None"
    by (simp_all add: NP_TYPE_TO_TENSOR_TYPE_def tensor_np_types_def)
  from numeric_round_trip[of 3 6 "[2, 2]" "[1, -2, 3, 4]" "''c:0''"] m(1)
  obtain p where "tf_to_onnx_tensor (PTensorProto (NumArray DT_INT32 [2, 2] [1, -2, 3, 4])) ''c:0'' = Inr p"
    "to_array p = Inr (NumArray DT_INT32 [2, 2] [1, -2, 3, 4])"
    by blast
  moreover from numeric_round_trip[of 14 0 "[1]" "[7]" "''b:0''"] m(2)
  have "isl (tf_to_onnx_tensor (PTensorProto (NumArray DT_BFLOAT16 [1] [7])) ''b:0'')"
    by simp
  ultimately show ?thesis using m by simp
qed

text \<open>The claim as stated fails: a tensor of the quantized kind \<open>DT_QUINT8\<close> is of a numeric
  kind, and the codec raises on it, so that there is nothing to decode.\<close>

theorem quantized_tensor_not_converted:
  "tf_to_onnx_tensor (PTensorProto (NumArray DT_QUINT8 [2] [1, 2])) ''c:0''
     = Inl (RuntimeError ''Numpy data type not understood yet'')"
  by (simp add: tf_to_onnx_tensor_def get_tf_tensor_data_def MakeNdarray_def
      isinstance_ndarray_def make_sure_def isinstance_TensorProto_def from_array_def
      NP_TYPE_TO_TENSOR_TYPE_def tensor_np_types_def)

theorem opaque_element_fails:
  assumes "Opaque \<in> set flat"
  shows "tf_to_onnx_tensor (PTensorProto (ObjArray shp flat)) name = Inl (RuntimeError ''Not support type'')
   \<and> (node \<in> set node_list \<and> map_of (n_attr node) ''value'' = Some (PTensorProto (ObjArray shp flat))
        \<longrightarrow> isl (tflist_to_onnx node_list shape_override))"
proof (intro conjI impI)
  show "tf_to_onnx_tensor (PTensorProto (ObjArray shp flat)) name = Inl (RuntimeError ''Not support type'')"
    using assms by (rule tf_to_onnx_tensor_opaque)
next
  assume h: "node \<in> set node_list \<and> map_of (n_attr node) ''value'' = Some (PTensorProto (ObjArray shp flat))"
  have step: "isl (convert_attr node ''value'' s)" for s
    using h tf_to_onnx_tensor_opaque[OF assms]
    by (simp add: convert_attr_value get_tf_node_attr_def)
  have run: "isl (convert_attrs node (map fst (n_attr node)) s)" for s
    using step attr_key h by (blast intro: convert_attrs_fails)
  have "isl (convert_node node st)" for st
  proof -
    obtain e where "convert_attrs node (map fst (n_attr node))
        ([], st\<lparr>op_cnt := counter_incr (op_cnt st) (n_type node)\<rparr>) = Inl e"
      using run[of "([], st\<lparr>op_cnt := counter_incr (op_cnt st) (n_type node)\<rparr>)"]
      by (auto simp: isl_def)
    then show ?thesis unfolding convert_node_def Let_def by simp
  qed
  then have "isl (convert_nodes node_list st)" for st
    using h by (blast intro: convert_nodes_fails)
  then show "isl (tflist_to_onnx node_list shape_override)"
    unfolding tflist_to_onnx_def by (auto split: sum.splits)
qed

theorem opaque_element_fails_witness:
  "Opaque \<in> set [Text ''a'', Opaque]
   \<and> tf_to_onnx_tensor (PTensorProto (ObjArray [2] [Text ''a'', Opaque])) ''s:0''
       = Inl (RuntimeError ''Not support type'')
   \<and> isl (tflist_to_onnx [example_strings] Map.empty)"
  using opaque_element_fails[where flat = "[Text ''a'', Opaque]" and shp = "[2]" and name = "''s:0''"
      and node = example_strings and node_list = "[example_strings]" and shape_override = Map.empty]
  by (simp add: example_strings_def)

text \<open>
  C8 (as amended). The payload that \<open>tf_to_onnx_tensor\<close> produces carries exactly the name
  the caller passes, so the empty name when none is supplied. The graph converter passes
  the port name of the node for every \<open>value\<close> attribute: in a converted graph the embedded
  tensor of a node with a \<open>value\<close> attribute carries the port name derived from the node's
  name.
\<close>

theorem tensor_payload_name:
  "(tf_to_onnx_tensor tensor name = Inr p \<longrightarrow> ot_name p = name)
   \<and> (tf_to_onnx_tensor_unnamed tensor = Inr p \<longrightarrow> ot_name p = '''')
   \<and> (tflist_to_onnx node_list shape_override = Inr t \<and> i < length node_list
        \<and> map_of (n_attr (node_list ! i)) ''value'' = Some v
      \<longrightarrow> (\<exists>q. map_of (o_attribute (onnx_nodes t ! i)) ''value'' = Some (POnnxTensor q)
             \<and> ot_name q = port_name (n_name (node_list ! i))))"
proof (intro conjI impI)
  assume "tf_to_onnx_tensor tensor name = Inr p"
  then show "ot_name p = name" by (rule tf_to_onnx_tensor_name)
next
  assume "tf_to_onnx_tensor_unnamed tensor = Inr p"
  then show "ot_name p = ''''"
    unfolding tf_to_onnx_tensor_unnamed_def by (rule tf_to_onnx_tensor_name)
next
  assume h: "tflist_to_onnx node_list shape_override = Inr t \<and> i < length node_list
        \<and> map_of (n_attr (node_list ! i)) ''value'' = Some v"
  then have "converted_from (node_list ! i) (onnx_nodes t ! i)"
    using tflist_to_onnx_Inr(1)[of node_list shape_override t] by (simp add: list_all2_nthD)
  then obtain st st' where "convert_attrs (node_list ! i) (map fst (n_attr (node_list ! i))) ([], st)
      = Inr (o_attribute (onnx_nodes t ! i), st')"
    unfolding converted_from_def by blast
  from value_entry[OF this] h attr_key[of "node_list ! i" "''value''" v]
  show "\<exists>q. map_of (o_attribute (onnx_nodes t ! i)) ''value'' = Some (POnnxTensor q)
             \<and> ot_name q = port_name (n_name (node_list ! i))"
    by (auto dest: tf_to_onnx_tensor_name)
qed

theorem tensor_payload_name_witness:
  "\<not> isl (tflist_to_onnx example_graph example_override)
   \<and> (\<exists>q. map_of (o_attribute (onnx_nodes (projr (tflist_to_onnx example_graph example_override)) ! 1)) ''value''
            = Some (POnnxTensor q)
          \<and> ot_name q = ''c:0'')"
proof -
  from example_graph_run obtain t where r: "tflist_to_onnx example_graph example_override = Inr t"
    by (cases "tflist_to_onnx example_graph example_override") auto
  have "tflist_to_onnx example_graph example_override = Inr t \<and> 1 < length example_graph
      \<and> map_of (n_attr (example_graph ! 1)) ''value'' = Some (PTensorProto (NumArray DT_INT32 [] [1]))"
    using r by (simp add: example_graph_def)
  with tensor_payload_name[where node_list = example_graph and shape_override = example_override
      and t = t and i = 1 and v = "PTensorProto (NumArray DT_INT32 [] [1])"]
  have "\<exists>q. map_of (o_attribute (onnx_nodes t ! 1)) ''value'' = Some (POnnxTensor q)
          \<and> ot_name q = port_name (n_name (example_graph ! 1))"
    by blast
  then show ?thesis
    unfolding r by (simp add: example_graph_def port_name_def)
qed

text \<open>The claim as stated fails: with no name supplied the default \<open>name=""\<close> applies, and
  the payload carries the empty name.\<close>

theorem unnamed_tensor_has_empty_name:
  "\<not> isl (tf_to_onnx_tensor_unnamed (PTensorProto (NumArray DT_INT32 [] [1])))
   \<and> ot_name (projr (tf_to_onnx_tensor_unnamed (PTensorProto (NumArray DT_INT32 [] [1])))) = ''''"
  by (simp add: tf_to_onnx_tensor_unnamed_def tf_to_onnx_tensor_def get_tf_tensor_data_def
      MakeNdarray_def isinstance_ndarray_def make_sure_def isinstance_TensorProto_def from_array_def
      NP_TYPE_TO_TENSOR_TYPE_def tensor_np_types_def)

subsection \<open>Attribute resolver\<close>

text \<open>
  C6 (as amended). After a successful run, for every node with an attribute \<open>DstT\<close> of type
  code \<open>x\<close>, the attribute mapping of the converted node has no \<open>DstT\<close> and no \<open>SrcT\<close>
  entry, and, unless the node has an attribute of its own named \<open>to\<close> that is iterated
  after \<open>DstT\<close>, its entry \<open>to\<close> is the type-mapped value of \<open>x\<close>.
\<close>

theorem DstT_becomes_to:
  assumes "tflist_to_onnx node_list shape_override = Inr t"
    and "i < length node_list"
    and "map_of (n_attr (node_list ! i)) ''DstT'' = Some x"
  shows "map_of (o_attribute (onnx_nodes t ! i)) ''DstT'' = None
   \<and> map_of (o_attribute (onnx_nodes t ! i)) ''SrcT'' = None
   \<and> (''to'' \<notin> set (tl (dropWhile (\<lambda>k. k \<noteq> ''DstT'') (map fst (n_attr (node_list ! i)))))
      \<longrightarrow> (\<exists>d. map_tf_dtype x = Inr d \<and> map_of (o_attribute (onnx_nodes t ! i)) ''to'' = Some d))"
proof -
  have "converted_from (node_list ! i) (onnx_nodes t ! i)"
    using tflist_to_onnx_Inr(1)[OF assms(1)] assms(2) by (simp add: list_all2_nthD)
  then obtain st st' where run: "convert_attrs (node_list ! i) (map fst (n_attr (node_list ! i))) ([], st)
      = Inr (o_attribute (onnx_nodes t ! i), st')"
    unfolding converted_from_def by blast
  from no_DstT_SrcT_entries[OF run] to_entry[OF run assms(3) attr_key[OF assms(3)]]
  show ?thesis by simp
qed

theorem DstT_becomes_to_witness:
  "\<not> isl (tflist_to_onnx example_graph example_override)
   \<and> map_of (n_attr (example_graph ! 2)) ''DstT'' = Some (PDType DT_INT32)
   \<and> map_of (o_attribute (onnx_nodes (projr (tflist_to_onnx example_graph example_override)) ! 2)) ''to''
       = Some (PInt ONNX_INT32)
   \<and> map_of (o_attribute (onnx_nodes (projr (tflist_to_onnx example_graph example_override)) ! 2)) ''DstT'' = None
   \<and> map_of (o_attribute (onnx_nodes (projr (tflist_to_onnx example_graph example_override)) ! 2)) ''SrcT'' = None"
proof -
  from example_graph_run obtain t where r: "tflist_to_onnx example_graph example_override = Inr t"
    by (cases "tflist_to_onnx example_graph example_override") auto
  have i: "2 < length example_graph"
    and x: "map_of (n_attr (example_graph ! 2)) ''DstT'' = Some (PDType DT_INT32)"
    and free: "''to'' \<notin> set (tl (dropWhile (\<lambda>k. k \<noteq> ''DstT'') (map fst (n_attr (example_graph ! 2)))))"
    by (simp_all add: example_graph_def)
  have m: "map_tf_dtype (PDType DT_INT32) = Inr (PInt ONNX_INT32)"
    by (simp add: map_tf_dtype_def table_get_def TF_TO_ONNX_DTYPE_def)
  from DstT_becomes_to[OF r i x] free show ?thesis
    unfolding r by (auto simp: m x)
qed

text \<open>The claim as stated fails: a node whose own attribute \<open>to\<close> is iterated after \<open>DstT\<close>
  keeps the value of its own attribute under \<open>to\<close>, not the mapped type.\<close>

theorem own_to_attribute_wins:
  "\<not> isl (tflist_to_onnx [example_custom] Map.empty)
   \<and> map_of (n_attr example_custom) ''DstT'' = Some (PDType DT_INT32)
   \<and> map_tf_dtype (PDType DT_INT32) = Inr (PInt ONNX_INT32)
   \<and> map_of (o_attribute (onnx_nodes (projr (tflist_to_onnx [example_custom] Map.empty)) ! 0)) ''to''
       = Some (PInt 5)"
proof -
  have "map_of (n_attr example_custom) ''DstT'' = Some (PDType DT_INT32)"
    by (simp add: example_custom_def)
  moreover have "map_tf_dtype (PDType DT_INT32) = Inr (PInt ONNX_INT32)"
    by (simp add: map_tf_dtype_def table_get_def TF_TO_ONNX_DTYPE_def)
  ultimately show ?thesis
    using example_custom_run by (auto split: sum.splits)
qed

text \<open>
  C7. For a node whose attribute \<open>shape\<close> is absent, is no shape (malformed) or reports
  unknown rank: \<open>get_tf_shape_attr\<close> returns \<open>None\<close>; resolving the attribute \<open>shape\<close> leaves the
  attribute dictionary of the node as it is and only counts the attribute name, so that it
  never raises; the attribute is never fatal to the overall conversion, since the conversion
  of any graph with that node fails or succeeds as the conversion of the same graph with the
  attribute removed from the node does, with the same error or with the same converted nodes
  and tables (the counter of attribute names apart); and after a successful run the attribute
  mapping of the converted node has no \<open>shape\<close> entry.
\<close>

theorem unavailable_shape_attr:
  assumes "\<forall>sh. map_of (n_attr node) ''shape'' = Some (PShape sh) \<longrightarrow> unknown_rank sh"
  shows "get_tf_shape_attr node = None
   \<and> convert_attr node ''shape'' s
       = Inr (fst s, (snd s)\<lparr>attr_cnt := counter_incr (attr_cnt (snd s)) ''shape''\<rparr>)
   \<and> \<not> isl (convert_attr node ''shape'' s)
   \<and> (i < length node_list \<and> node_list ! i = node \<longrightarrow>
        map_sum id all_but_attr_cnt (tflist_to_onnx node_list shape_override)
          = map_sum id all_but_attr_cnt
              (tflist_to_onnx (node_list[i := without_shape_attr node]) shape_override)
        \<and> (isl (tflist_to_onnx node_list shape_override)
             \<longleftrightarrow> isl (tflist_to_onnx (node_list[i := without_shape_attr node]) shape_override)))
   \<and> (tflist_to_onnx node_list shape_override = Inr t \<and> i < length node_list \<and> node_list ! i = node
      \<longrightarrow> map_of (o_attribute (onnx_nodes t ! i)) ''shape'' = None)"
proof (intro conjI impI)
  show none: "get_tf_shape_attr node = None"
    using assms
    by (auto simp: get_tf_shape_attr_def get_tf_node_attr_def split: option.splits pyval.splits)
  then show step: "convert_attr node ''shape'' s
       = Inr (fst s, (snd s)\<lparr>attr_cnt := counter_incr (attr_cnt (snd s)) ''shape''\<rparr>)"
    by (simp add: convert_attr_shape count_attr_def)
  then show "\<not> isl (convert_attr node ''shape'' s)"
    by simp
next
  assume h: "i < length node_list \<and> node_list ! i = node"
  have none: "get_tf_shape_attr (node_list ! i) = None"
    using assms h
    by (auto simp: get_tf_shape_attr_def get_tf_node_attr_def split: option.splits pyval.splits)
  from h tflist_to_onnx_same_result[OF _ none, of shape_override]
  show same: "map_sum id all_but_attr_cnt (tflist_to_onnx node_list shape_override)
          = map_sum id all_but_attr_cnt
              (tflist_to_onnx (node_list[i := without_shape_attr node]) shape_override)"
    by simp
  then show "isl (tflist_to_onnx node_list shape_override)
             \<longleftrightarrow> isl (tflist_to_onnx (node_list[i := without_shape_attr node]) shape_override)"
    by (cases "tflist_to_onnx node_list shape_override";
        cases "tflist_to_onnx (node_list[i := without_shape_attr node]) shape_override") simp_all
next
  assume h: "tflist_to_onnx node_list shape_override = Inr t \<and> i < length node_list \<and> node_list ! i = node"
  have none: "get_tf_shape_attr node = None"
    using assms
    by (auto simp: get_tf_shape_attr_def get_tf_node_attr_def split: option.splits pyval.splits)
  from h have "converted_from node (onnx_nodes t ! i)"
    using tflist_to_onnx_Inr(1)[of node_list shape_override t] by (auto simp: list_all2_nthD)
  then obtain st st' where run: "convert_attrs node (map fst (n_attr node)) ([], st)
      = Inr (o_attribute (onnx_nodes t ! i), st')"
    unfolding converted_from_def by blast
  from no_shape_entry[OF run none] show "map_of (o_attribute (onnx_nodes t ! i)) ''shape'' = None"
    by simp
qed

theorem unavailable_shape_attr_witness:
  "\<not> isl (tflist_to_onnx example_graph example_override)
   \<and> map_of (n_attr (example_graph ! 0)) ''shape'' = Some (PShape \<lparr>unknown_rank = True, dim = []\<rparr>)
   \<and> get_tf_shape_attr (example_graph ! 0) = None
   \<and> \<not> isl (tflist_to_onnx (example_graph[0 := without_shape_attr (example_graph ! 0)]) example_override)
   \<and> map_of (o_attribute (onnx_nodes (projr (tflist_to_onnx example_graph example_override)) ! 0)) ''shape'' = None"
proof -
  from example_graph_run obtain t where r: "tflist_to_onnx example_graph example_override = Inr t"
    by (cases "tflist_to_onnx example_graph example_override") auto
  have a: "map_of (n_attr (example_graph ! 0)) ''shape'' = Some (PShape \<lparr>unknown_rank = True, dim = []\<rparr>)"
    and i: "0 < length example_graph"
    by (simp_all add: example_graph_def)
  from a have "\<forall>sh. map_of (n_attr (example_graph ! 0)) ''shape'' = Some (PShape sh) \<longrightarrow> unknown_rank sh"
    by auto
  from unavailable_shape_attr[OF this, where node_list = example_graph and shape_override = example_override
      and t = t and i = 0] r a i
  show ?thesis
    by simp
qed

subsection \<open>Pre-optimizer\<close>

text \<open>
  C9. When the extraction of the sub-graph returns, \<open>tf_optimize\<close> hands to the transform
  pipeline exactly this sequence: with the fold-constants flag set, constant folding with
  errors ignored, the removal of the colocation attribute, then the two batch-norm folds;
  with the flag not set, the two batch-norm folds alone. The two folds are in the sequence of
  every call.
\<close>

theorem tf_optimize_transform_sequence:
  assumes "extract_sub_graph graph_def (map node_name inputs @ map node_name outputs) = Inr g"
  shows "tf_optimize node_name extract_sub_graph TransformGraph inputs outputs graph_def fold_constant =
           TransformGraph g inputs outputs
             (if truthy fold_constant
              then [''fold_constants(ignore_errors=true)'', ''remove_attribute(attribute_name=_class)'',
                    ''fold_batch_norms'', ''fold_old_batch_norms'']
              else [''fold_batch_norms'', ''fold_old_batch_norms''])
         \<and> {''fold_batch_norms'', ''fold_old_batch_norms''} \<subseteq> set (tf_optimize_transforms fold_constant)"
  using assms by (simp add: tf_optimize_def tf_optimize_transforms_def)

theorem tf_optimize_transform_sequence_witness:
  "tf_optimize (\<lambda>n. n) (\<lambda>g names. Inr g) (\<lambda>g ins outs ts. Inr ts) [''a:0''] [''y:0''] [] (PBool True)
     = Inr [''fold_constants(ignore_errors=true)'', ''remove_attribute(attribute_name=_class)'',
            ''fold_batch_norms'', ''fold_old_batch_norms'']
   \<and> tf_optimize (\<lambda>n. n) (\<lambda>g names. Inr g) (\<lambda>g ins outs ts. Inr ts) [''a:0''] [''y:0''] [] PNone
     = Inr [''fold_batch_norms'', ''fold_old_batch_norms'']"
  using tf_optimize_transform_sequence[of "\<lambda>g names. Inr g" "[]" "\<lambda>n. n" "[''a:0'']" "[''y:0'']" "[]"
          "\<lambda>g ins outs ts. Inr ts" "PBool True"]
        tf_optimize_transform_sequence[of "\<lambda>g names. Inr g" "[]" "\<lambda>n. n" "[''a:0'']" "[''y:0'']" "[]"
          "\<lambda>g ins outs ts. Inr ts" "PNone"]
  by simp

end
